theory Spec2Isabelle
  imports Main "HOL-Library.Word" "HOL-Library.Char_ord" "HOL-Library.List_Lexorder"
begin

chapter \<open>The model\<close>

section \<open>IR-level types and the structural compatibility check\<close>

text \<open>
  The IR type of a global variable, as the reconciliation code sees it through
  \<^verbatim>\<open>getTypeID\<close>, \<^verbatim>\<open>getArrayNumElements\<close>, \<^verbatim>\<open>getArrayElementType\<close>,
  \<^verbatim>\<open>getPointerElementType\<close> and \<^verbatim>\<open>isLayoutIdentical\<close>.  The IR library keeps one
  object per type, so the pointer comparison \<^verbatim>\<open>Ty1 == Ty2\<close> of the source is equality
  of the values below; an identified struct carries its name, a literal struct has none.
  A pointer carries its pointee and its address space.
\<close>

datatype PrimitiveTy =
  VoidTy | HalfTy | FloatTy | DoubleTy | X86_FP80Ty | FP128Ty | PPC_FP128Ty
  | LabelTy | MetadataTy | X86_MMXTy | TokenTy

datatype llvmType =
    Primitive PrimitiveTy
  | IntegerTy nat
  | FunctionTy llvmType "llvmType list" bool
  | StructTy "string option" bool "llvmType list"
  | ArrayTy llvmType nat
  | PointerTy llvmType nat
  | VectorTy llvmType nat

datatype TypeID =
  PrimitiveTyID PrimitiveTy | IntegerTyID | FunctionTyID | StructTyID | ArrayTyID
  | PointerTyID | VectorTyID

fun getTypeID :: "llvmType \<Rightarrow> TypeID" where
  "getTypeID (Primitive p) = PrimitiveTyID p"
| "getTypeID (IntegerTy w) = IntegerTyID"
| "getTypeID (FunctionTy r ps va) = FunctionTyID"
| "getTypeID (StructTy nm packed els) = StructTyID"
| "getTypeID (ArrayTy e n) = ArrayTyID"
| "getTypeID (PointerTy e a) = PointerTyID"
| "getTypeID (VectorTy e n) = VectorTyID"

text \<open>
  \<^verbatim>\<open>StructType::isLayoutIdentical\<close> of the IR library: the same type, or the same
  packing and the same element types.
\<close>

fun isLayoutIdentical :: "llvmType \<Rightarrow> llvmType \<Rightarrow> bool" where
  "isLayoutIdentical (StructTy n1 p1 es1) (StructTy n2 p2 es2) =
     (StructTy n1 p1 es1 = StructTy n2 p2 es2 \<or> (p1 = p2 \<and> es1 = es2))"
| "isLayoutIdentical Ty1 Ty2 = False"

text \<open>
  \<^verbatim>\<open>lCompatibleTypes\<close>: the \<^verbatim>\<open>while\<close> loop runs as long as both type ids agree.
  An array pair with different element counts returns \<^verbatim>\<open>false\<close>, otherwise the loop
  goes on with the element types; a pointer pair goes on with the pointees; a struct
  pair returns \<^verbatim>\<open>isLayoutIdentical\<close>; every other pair of one type id returns
  \<^verbatim>\<open>Ty1 == Ty2\<close>.  Leaving the loop (the ids differ) returns \<^verbatim>\<open>false\<close>.
\<close>

fun lCompatibleTypes :: "llvmType \<Rightarrow> llvmType \<Rightarrow> bool" where
  "lCompatibleTypes (ArrayTy e1 n1) (ArrayTy e2 n2) =
     (if n1 \<noteq> n2 then False else lCompatibleTypes e1 e2)"
| "lCompatibleTypes (PointerTy e1 a1) (PointerTy e2 a2) = lCompatibleTypes e1 e2"
| "lCompatibleTypes (StructTy n1 p1 es1) (StructTy n2 p2 es2) =
     isLayoutIdentical (StructTy n1 p1 es1) (StructTy n2 p2 es2)"
| "lCompatibleTypes Ty1 Ty2 = (if getTypeID Ty1 = getTypeID Ty2 then Ty1 = Ty2 else False)"

section \<open>Per-target output file names\<close>

text \<open>
  A C string is modelled by its characters before the terminating NUL, so a
  \<^typ>\<open>string\<close> here never holds a NUL and \<^verbatim>\<open>strlen\<close> is the length.
  \<^verbatim>\<open>strrchr\<close> gives the offset of the last occurrence of the character
  (\<open>None\<close> for the null pointer); the pointer it returns, read as a string, is the
  rest of the string from that offset.  \<^verbatim>\<open>strncat(dest, src, n)\<close> appends at most
  \<open>n\<close> characters of \<open>src\<close>.
\<close>

definition strlen :: "string \<Rightarrow> nat" where
  "strlen s = length s"

fun strrchr :: "string \<Rightarrow> char \<Rightarrow> nat option" where
  "strrchr [] c = None"
| "strrchr (x # xs) c =
     (case strrchr xs c of
        Some i \<Rightarrow> Some (Suc i)
      | None \<Rightarrow> (if x = c then Some 0 else None))"

definition strncat :: "string \<Rightarrow> string \<Rightarrow> nat \<Rightarrow> string" where
  "strncat dest src n = dest @ take n src"

text \<open>
  \<^verbatim>\<open>lGetTargetFileName\<close>.  The buffer has \<^verbatim>\<open>strlen(outFileName) + 16\<close> bytes.
  With a \<^verbatim>\<open>'.'\<close> in the name, \<^verbatim>\<open>strncpy\<close> copies the \<open>count\<close> characters before
  the last \<^verbatim>\<open>'.'\<close> and the terminator is written at \<open>count\<close>; without one,
  \<^verbatim>\<open>strncpy\<close> copies at most \<open>bufferSize - 1\<close> characters and the terminator is
  written at \<open>bufferSize - 1\<close>.  Every \<^verbatim>\<open>strncat\<close> is limited to the room left,
  \<^verbatim>\<open>bufferSize - strlen(targetOutFileName) - 1\<close>.
\<close>

definition lGetTargetFileName :: "string \<Rightarrow> string \<Rightarrow> string" where
  "lGetTargetFileName outFileName isaString =
     (let bufferSize = strlen outFileName + 16 in
      case strrchr outFileName CHR ''.'' of
        Some count \<Rightarrow>
          let t0 = take count outFileName;
              t1 = strncat t0 ''_'' (bufferSize - strlen t0 - 1);
              t2 = strncat t1 isaString (bufferSize - strlen t1 - 1);
              t3 = strncat t2 (drop count outFileName) (bufferSize - strlen t2 - 1)
          in t3
      | None \<Rightarrow>
          let t0 = take (bufferSize - 1) outFileName;
              t1 = strncat t0 ''_'' (bufferSize - strlen t0 - 1);
              t2 = strncat t1 isaString (bufferSize - strlen t1 - 1)
          in t2)"

section \<open>Dependency registration and the dependency listing\<close>

text \<open>
  \<^verbatim>\<open>registeredDependencies\<close> is a \<^verbatim>\<open>std::set<std::string>\<close>: a set of strings that
  is iterated in ascending order.  \<^verbatim>\<open>fileName[0]\<close> of an empty \<^verbatim>\<open>std::string\<close> is
  the NUL character.
\<close>

definition firstChar :: "string \<Rightarrow> char" where
  "firstChar fileName = (case fileName of [] \<Rightarrow> CHR 0x00 | c # cs \<Rightarrow> c)"

definition RegisterDependency :: "string \<Rightarrow> string set \<Rightarrow> string set" where
  "RegisterDependency fileName registeredDependencies =
     (if firstChar fileName \<noteq> CHR ''<'' \<and> fileName \<noteq> ''stdlib.ispc''
      then insert fileName registeredDependencies
      else registeredDependencies)"






section \<open>The dispatch function\<close>

text \<open>
  The body that \<^verbatim>\<open>lCreateDispatchFunction\<close> emits is a chain of blocks.  A block
  either compares and branches (\<^verbatim>\<open>isa_ok = icmp sge system_isa, i\<close>, then
  \<^verbatim>\<open>br isa_ok, do_call, next_try\<close>, where \<^verbatim>\<open>do_call\<close> calls the variant with the
  arguments of the dispatch function and returns, and \<^verbatim>\<open>next_try\<close> is the next
  block), or it is the last block, which calls \<^verbatim>\<open>abort\<close> and returns an undefined
  value.  The argument casts and the return value are not modelled.
\<close>

datatype 'f bblock =
    CondBr "32 word" 'f "'f bblock"
  | CallAbort

record 'f dispatchFunc =
  dispatchName :: string
  entry :: "'f bblock"

definition LLVMInt32 :: "nat \<Rightarrow> 32 word" where
  "LLVMInt32 i = word_of_nat i"

text \<open>
  The loop \<^verbatim>\<open>for (int i = Target::NUM_ISAS - 1; i >= 0; --i)\<close>: \<open>emitCandidates n\<close>
  is the chain built for the candidates below \<open>n\<close>, the highest first.  The array
  \<^verbatim>\<open>targetFuncs\<close> has \<^verbatim>\<open>NUM_ISAS\<close> slots and is a function of the index.
\<close>

fun emitCandidates :: "nat \<Rightarrow> (nat \<Rightarrow> 'f option) \<Rightarrow> 'f bblock" where
  "emitCandidates 0 targetFuncs = CallAbort"
| "emitCandidates (Suc i) targetFuncs =
     (case targetFuncs i of
        None \<Rightarrow> emitCandidates i targetFuncs
      | Some f \<Rightarrow> CondBr (LLVMInt32 i) f (emitCandidates i targetFuncs))"

text \<open>
  \<^verbatim>\<open>lCreateDispatchFunction\<close>.  \<^verbatim>\<open>Target::NUM_ISAS\<close> is declared in another file and
  is a parameter.  \<open>func\<close> is the array of the variants of the function, indexed by
  the instruction set; a declaration of each present variant is made in the module
  (\<^verbatim>\<open>targetFuncs\<close>), under the same index.
\<close>

definition lCreateDispatchFunction ::
  "nat \<Rightarrow> string \<Rightarrow> (nat \<Rightarrow> 'f option) \<Rightarrow> 'f dispatchFunc" where
  "lCreateDispatchFunction NUM_ISAS nm func =
     (let targetFuncs = (\<lambda>i. if i < NUM_ISAS then func i else None)
      in \<lparr> dispatchName = nm, entry = emitCandidates NUM_ISAS targetFuncs \<rparr>)"

text \<open>
  What the emitted code does at run time.  The entry block calls
  \<^verbatim>\<open>__set_system_isa\<close> and loads \<^verbatim>\<open>__system_best_isa\<close>; \<open>systemISA\<close> is the
  value loaded.  \<^verbatim>\<open>icmp sge\<close> is the signed comparison of two 32-bit values.
\<close>

datatype 'f outcome = Calls 'f | Aborts

fun runBlock :: "32 word \<Rightarrow> 'f bblock \<Rightarrow> 'f outcome" where
  "runBlock systemISA CallAbort = Aborts"
| "runBlock systemISA (CondBr i f next_try) =
     (if sint systemISA \<ge> sint i then Calls f else runBlock systemISA next_try)"

definition runDispatch :: "32 word \<Rightarrow> 'f dispatchFunc \<Rightarrow> 'f outcome" where
  "runDispatch systemISA d = runBlock systemISA (entry d)"

text \<open>The candidate levels in the order in which the emitted code tests them.\<close>

fun testedLevels :: "'f bblock \<Rightarrow> 32 word list" where
  "testedLevels CallAbort = []"
| "testedLevels (CondBr i f next_try) = i # testedLevels next_try"


section \<open>Source-level types and the export-legality check\<close>

text \<open>
  Modelled from the spec: the classes of source-level types are declared in
  \<^verbatim>\<open>type.h\<close> and \<^verbatim>\<open>type.cpp\<close>, which are not among the sources.  The variants
  are the closed set that the specification lists (atomic, enum, pointer, reference,
  array and vector as the two sequential types, struct, function).  A type that is
  declared with a variability carries it; a reference, an array and a vector have the
  variability of what they refer to or hold, a function type is uniform.  The element
  types of a struct are the types that \<^verbatim>\<open>GetElementType\<close> returns.  A function type
  holds its return type, its parameters (type, name, whether a default value is
  given, position) and the qualifiers \<^verbatim>\<open>isTask\<close>, \<^verbatim>\<open>isExported\<close> and
  \<^verbatim>\<open>isExternC\<close>.  A pointer holds its base type, its variability, whether it is
  const and whether it is a slice pointer.
\<close>

datatype Variability = Uniform | Varying | SOA | Unbound

datatype BasicType =
  TYPE_VOID | TYPE_BOOL | TYPE_INT8 | TYPE_UINT8 | TYPE_INT16 | TYPE_UINT16
  | TYPE_INT32 | TYPE_UINT32 | TYPE_FLOAT | TYPE_INT64 | TYPE_UINT64 | TYPE_DOUBLE

type_synonym SourcePos = "string \<times> nat"

datatype Type =
    AtomicType BasicType Variability bool
  | EnumType string Variability bool
  | PointerType Type Variability bool bool
  | ReferenceType Type
  | ArrayType Type nat
  | VectorType Type nat
  | StructType string "Type list" Variability bool
  | FunctionType Type "(Type \<times> string \<times> bool \<times> SourcePos) list" bool bool bool

fun GetVariability :: "Type \<Rightarrow> Variability" where
  "GetVariability (AtomicType b v c) = v"
| "GetVariability (EnumType n v c) = v"
| "GetVariability (PointerType t v c sl) = v"
| "GetVariability (ReferenceType t) = GetVariability t"
| "GetVariability (ArrayType t n) = GetVariability t"
| "GetVariability (VectorType t n) = GetVariability t"
| "GetVariability (StructType n els v c) = v"
| "GetVariability (FunctionType r ps task exported externC) = Uniform"

definition IsVaryingType :: "Type \<Rightarrow> bool" where
  "IsVaryingType t = (GetVariability t = Varying)"

definition IsUniformType :: "Type \<Rightarrow> bool" where
  "IsUniformType t = (GetVariability t = Uniform)"

text \<open>
  \<^verbatim>\<open>lRecursiveCheckValidParamType\<close>, in the order of the source: a struct is checked
  element by element under the same flag; a vector is refused unless vectors are
  allowed; a sequential type (array or vector) is checked on its element type; a
  pointer is refused when it is varying and otherwise its base type is checked with
  vectors allowed; any other type is refused when it is varying and vectors are not
  allowed.
\<close>

fun lRecursiveCheckValidParamType :: "Type \<Rightarrow> bool \<Rightarrow> bool" where
  "lRecursiveCheckValidParamType (StructType n els v c) vectorOk =
     list_all (\<lambda>t. lRecursiveCheckValidParamType t vectorOk) els"
| "lRecursiveCheckValidParamType (VectorType e n) vectorOk =
     (if vectorOk = False then False else lRecursiveCheckValidParamType e vectorOk)"
| "lRecursiveCheckValidParamType (ArrayType e n) vectorOk =
     lRecursiveCheckValidParamType e vectorOk"
| "lRecursiveCheckValidParamType (PointerType b v c sl) vectorOk =
     (if IsVaryingType (PointerType b v c sl) then False
      else lRecursiveCheckValidParamType b True)"
| "lRecursiveCheckValidParamType t vectorOk =
     (if IsVaryingType t \<and> \<not> vectorOk then False else True)"

text \<open>An atomic or enum type that is uniform: a member type with no parts of its own.\<close>

definition isUniformLeaf :: "Type \<Rightarrow> bool" where
  "isUniformLeaf t =
     (case t of
        AtomicType b v c \<Rightarrow> v = Uniform
      | EnumType n v c \<Rightarrow> v = Uniform
      | _ \<Rightarrow> False)"

section \<open>The module: symbols, diagnostics and the generated globals and functions\<close>

text \<open>
  Modelled from the spec: the queries on types that the declaration code uses
  (\<^verbatim>\<open>IsVoidType\<close>, \<^verbatim>\<open>IsConstType\<close>, \<^verbatim>\<open>CastType\<close>, \<^verbatim>\<open>TotalElementCount\<close>,
  \<^verbatim>\<open>GetBaseType\<close> and the accessors of a function type) are defined with the type
  classes, outside the sources; they read the type as described above.
\<close>

fun IsVoidType :: "Type \<Rightarrow> bool" where
  "IsVoidType (AtomicType b v c) = (b = TYPE_VOID)"
| "IsVoidType t = False"

fun IsConstType :: "Type \<Rightarrow> bool" where
  "IsConstType (AtomicType b v c) = c"
| "IsConstType (EnumType n v c) = c"
| "IsConstType (PointerType t v c sl) = c"
| "IsConstType (ReferenceType t) = IsConstType t"
| "IsConstType (ArrayType t n) = IsConstType t"
| "IsConstType (VectorType t n) = IsConstType t"
| "IsConstType (StructType n els v c) = c"
| "IsConstType (FunctionType r ps task exported externC) = False"

fun isArrayType :: "Type \<Rightarrow> bool" where
  "isArrayType (ArrayType t n) = True"
| "isArrayType t = False"

fun isPointerType :: "Type \<Rightarrow> bool" where
  "isPointerType (PointerType t v c sl) = True"
| "isPointerType t = False"

fun isReferenceType :: "Type \<Rightarrow> bool" where
  "isReferenceType (ReferenceType t) = True"
| "isReferenceType t = False"

fun isStructType :: "Type \<Rightarrow> bool" where
  "isStructType (StructType n els v c) = True"
| "isStructType t = False"

fun isVectorType :: "Type \<Rightarrow> bool" where
  "isVectorType (VectorType t n) = True"
| "isVectorType t = False"

fun isFunctionType :: "Type \<Rightarrow> bool" where
  "isFunctionType (FunctionType r ps task exported externC) = True"
| "isFunctionType t = False"

fun IsSlice :: "Type \<Rightarrow> bool" where
  "IsSlice (PointerType t v c sl) = sl"
| "IsSlice t = False"

fun TotalElementCount :: "Type \<Rightarrow> nat" where
  "TotalElementCount (ArrayType t n) = (if isArrayType t then n * TotalElementCount t else n)"
| "TotalElementCount t = 0"

fun GetBaseType :: "Type \<Rightarrow> Type" where
  "GetBaseType (PointerType t v c sl) = t"
| "GetBaseType (ReferenceType t) = GetBaseType t"
| "GetBaseType (ArrayType t n) = GetBaseType t"
| "GetBaseType (VectorType t n) = t"
| "GetBaseType t = t"

fun GetReturnType :: "Type \<Rightarrow> Type" where
  "GetReturnType (FunctionType r ps task exported externC) = r"
| "GetReturnType t = t"

fun GetParameters :: "Type \<Rightarrow> (Type \<times> string \<times> bool \<times> SourcePos) list" where
  "GetParameters (FunctionType r ps task exported externC) = ps"
| "GetParameters t = []"

definition GetParameterTypes :: "Type \<Rightarrow> Type list" where
  "GetParameterTypes ft = map fst (GetParameters ft)"

definition GetNumParameters :: "Type \<Rightarrow> nat" where
  "GetNumParameters ft = length (GetParameters ft)"

fun isTask :: "Type \<Rightarrow> bool" where
  "isTask (FunctionType r ps task exported externC) = task"
| "isTask t = False"

fun isExported :: "Type \<Rightarrow> bool" where
  "isExported (FunctionType r ps task exported externC) = exported"
| "isExported t = False"

fun isExternC :: "Type \<Rightarrow> bool" where
  "isExternC (FunctionType r ps task exported externC) = externC"
| "isExternC t = False"

subsection \<open>Symbols and the symbol table\<close>

datatype StorageClass = SC_NONE | SC_EXTERN | SC_STATIC | SC_TYPEDEF | SC_EXTERN_C

text \<open>
  A symbol.  \<open>symStoragePtr\<close> and \<open>symFunction\<close> point to a global variable or a
  function of the generated module; the module keeps one value per name, so the name
  stands for the pointer.  \<open>'e\<close> is the type of expressions.
\<close>

record 'e Symbol =
  symName :: string
  symPos :: SourcePos
  symType :: Type
  symStorageClass :: StorageClass
  symConstValue :: "'e option"
  symStoragePtr :: "string option"
  symFunction :: "string option"

text \<open>
  Modelled from the spec: the symbol table is defined in \<^verbatim>\<open>symb.cpp\<close>, which is not
  among the sources.  At global scope it holds the variables and the functions that
  were declared, in the order of their declaration; a name has at most one variable
  and may have several functions (an overload set).  \<^verbatim>\<open>AddFunction\<close> refuses a
  function whose name and type are already present.
\<close>

record 'e SymbolTable =
  stVariables :: "'e Symbol list"
  stFunctions :: "'e Symbol list"

definition LookupVariable :: "'e SymbolTable \<Rightarrow> string \<Rightarrow> 'e Symbol option" where
  "LookupVariable st nm = find (\<lambda>s. symName s = nm) (stVariables st)"

definition LookupFunction :: "'e SymbolTable \<Rightarrow> string \<Rightarrow> 'e Symbol list" where
  "LookupFunction st nm = filter (\<lambda>s. symName s = nm) (stFunctions st)"

definition AddVariable :: "'e SymbolTable \<Rightarrow> 'e Symbol \<Rightarrow> 'e SymbolTable" where
  "AddVariable st symb = st\<lparr>stVariables := stVariables st @ [symb]\<rparr>"

text \<open>The symbol is shared with the table: a write to it is seen in the table.\<close>

definition updateVariable :: "'e SymbolTable \<Rightarrow> 'e Symbol \<Rightarrow> 'e SymbolTable" where
  "updateVariable st symb =
     st\<lparr>stVariables := map (\<lambda>s. if symName s = symName symb then symb else s) (stVariables st)\<rparr>"

definition AddFunction ::
  "(Type \<Rightarrow> Type \<Rightarrow> bool) \<Rightarrow> 'e SymbolTable \<Rightarrow> 'e Symbol \<Rightarrow> 'e SymbolTable option" where
  "AddFunction eq st symb =
     (if list_ex (\<lambda>s. eq (symType s) (symType symb)) (LookupFunction st (symName symb))
      then None
      else Some (st\<lparr>stFunctions := stFunctions st @ [symb]\<rparr>))"

subsection \<open>The generated module\<close>

datatype LinkageTypes = ExternalLinkage | InternalLinkage

text \<open>
  A global variable of the generated module: its name, the type of its value (the
  type of the variable itself is the pointer to it), constness, linkage and
  initializer.  \<open>'c\<close> is the type of IR constants.
\<close>

record 'c GlobalVariable =
  gvName :: string
  gvValueType :: llvmType
  gvIsConstant :: bool
  gvLinkage :: LinkageTypes
  gvInitializer :: "'c option"

datatype Attribute = NoUnwind | AlwaysInline | NoInline

record llvmFunction =
  fnName :: string
  fnType :: llvmType
  fnLinkage :: LinkageTypes
  fnDLLExport :: bool
  fnAttrs :: "Attribute list"
  fnNoAliasParams :: "nat list"

record 'c llvmModule =
  globalList :: "'c GlobalVariable list"
  functionList :: "llvmFunction list"

definition hasInitializer :: "'c GlobalVariable \<Rightarrow> bool" where
  "hasInitializer gv = (gvInitializer gv \<noteq> None)"

definition getType :: "'c GlobalVariable \<Rightarrow> llvmType" where
  "getType gv = PointerTy (gvValueType gv) 0"

definition getGlobalVariable :: "'c llvmModule \<Rightarrow> string \<Rightarrow> 'c GlobalVariable option" where
  "getGlobalVariable md nm = find (\<lambda>gv. gvName gv = nm) (globalList md)"

definition getFunction :: "'c llvmModule \<Rightarrow> string \<Rightarrow> llvmFunction option" where
  "getFunction md nm = find (\<lambda>f. fnName f = nm) (functionList md)"

definition nameTaken :: "'c llvmModule \<Rightarrow> string \<Rightarrow> bool" where
  "nameTaken md nm = (getGlobalVariable md nm \<noteq> None \<or> getFunction md nm \<noteq> None)"

definition removeFromParent :: "'c llvmModule \<Rightarrow> string \<Rightarrow> 'c llvmModule" where
  "removeFromParent md nm = md\<lparr>globalList := filter (\<lambda>gv. gvName gv \<noteq> nm) (globalList md)\<rparr>"

subsection \<open>Diagnostics\<close>

text \<open>
  The diagnostics of the declaration code, one constructor for each message of the
  source, under the name that the specification gives to the failure.
\<close>

datatype ErrorKind =
    ShadowingError string
  | QualifierError
  | VoidTypeError
  | UnsizedArrayError
  | ExternInitializerError string
  | NonConstantInitializerError string
  | ConflictingDeclarationError string SourcePos
  | RedefinitionError string SourcePos
  | ExportOverloadError SourcePos
  | ReturnOverloadError SourcePos
  | TaskLinkageError string
  | ForeignLinkageOverloadError string "nat option"
  | QualifierConflictError string
  | ExportReturnTypeError string
  | TaskReturnTypeError
  | StructByValueError
  | VaryingPointerParameterError string
  | StructVectorMemberParameterError string
  | VectorParameterError string
  | VaryingParameterError string
  | DefaultOrderError string
  | CXXNeedsGenericTargetError
  | GenericTargetOutputError
  | CXXEmissionTargetError
  | MultiTargetCXXError
  | StreamedSourceError
  | CpuOverrideError
  | StdoutOutputError
  | DuplicateISAError string

datatype WarningKind =
    ParameterShadowsFunction string
  | GlobalLayoutMismatch string
  | SuffixMismatch string string string

datatype Diagnostic = ErrorDiag SourcePos ErrorKind | WarningDiag SourcePos WarningKind

datatype fatal = AssertFailed | FATAL

text \<open>
  The state of \<^verbatim>\<open>Module\<close> that the declaration code reads and writes.  The
  diagnostics are kept in the order in which they are reported.
\<close>

record ('e, 'c) Module =
  errorCount :: nat
  diagnostics :: "Diagnostic list"
  symbolTable :: "'e SymbolTable"
  module :: "'c llvmModule"

text \<open>
  Modelled from the spec: \<^verbatim>\<open>Error\<close> and \<^verbatim>\<open>Warning\<close> are defined in \<^verbatim>\<open>util.cpp\<close>,
  which is not among the sources.  An error increments the error counter of the
  module; a warning is advisory and leaves it unchanged.
\<close>

definition Error :: "('e, 'c) Module \<Rightarrow> SourcePos \<Rightarrow> ErrorKind \<Rightarrow> ('e, 'c) Module" where
  "Error m pos k = m\<lparr>errorCount := errorCount m + 1,
                     diagnostics := diagnostics m @ [ErrorDiag pos k]\<rparr>"

definition Warning :: "('e, 'c) Module \<Rightarrow> SourcePos \<Rightarrow> WarningKind \<Rightarrow> ('e, 'c) Module" where
  "Warning m pos k = m\<lparr>diagnostics := diagnostics m @ [WarningDiag pos k]\<rparr>"

text \<open>
  The services of the front end and of the IR library that the declaration code
  calls and that are defined outside the sources, and the settings of the global
  \<^verbatim>\<open>g\<close> that it reads.  They are parameters of the model.  A service that returns a
  null pointer returns \<open>None\<close>; the diagnostics that a service reports itself are not
  part of the model.  \<open>makeUniqueName\<close> is the name that the IR library gives to a
  value whose requested name is taken in the module.
\<close>

record ('e, 'c) frontend =
  Equal :: "Type \<Rightarrow> Type \<Rightarrow> bool"
  SizeUnsizedArrays :: "Type \<Rightarrow> 'e option \<Rightarrow> Type option"
  LLVMType :: "Type \<Rightarrow> llvmType option"
  LLVMFunctionType :: "Type \<Rightarrow> bool \<Rightarrow> llvmType option"
  Mangle :: "Type \<Rightarrow> string"
  TypeCheck :: "'e \<Rightarrow> 'e option"
  TypeConvertExpr :: "'e \<Rightarrow> Type \<Rightarrow> 'e option"
  Optimize :: "'e \<Rightarrow> 'e"
  GetConstant :: "'e \<Rightarrow> Type \<Rightarrow> 'c option"
  isExprList :: "'e \<Rightarrow> bool"
  isConstExpr :: "'e \<Rightarrow> bool"
  exprPos :: "'e \<Rightarrow> SourcePos"
  getNullValue :: "llvmType \<Rightarrow> 'c"
  makeUniqueName :: "string \<Rightarrow> string"
  targetIsWindows :: bool
  dllExport :: bool
  mangleFunctionsWithTarget :: bool
  GetISAString :: string

subsection \<open>Global variables\<close>

text \<open>
  The part of \<^verbatim>\<open>Module::AddGlobalVariable\<close> that looks at the initializer.  The
  result is the module (with the diagnostics reported), \<^verbatim>\<open>llvmInitializer\<close> and
  \<^verbatim>\<open>constValue\<close>.  With \<^verbatim>\<open>extern\<close> storage an initializer is an error and
  \<^verbatim>\<open>llvmInitializer\<close> stays null; otherwise the initializer is type-checked,
  converted (unless it is an expression list), optimized and asked for its constant,
  and a missing constant is replaced by the null value of the type.
\<close>

definition globalInitializer ::
  "('e, 'c) frontend \<Rightarrow> ('e, 'c) Module \<Rightarrow> string \<Rightarrow> Type \<Rightarrow> 'e option \<Rightarrow> StorageClass \<Rightarrow>
   llvmType \<Rightarrow> SourcePos \<Rightarrow> ('e, 'c) Module \<times> 'c option \<times> 'e option" where
  "globalInitializer fe m nm type initExpr storageClass llvmType pos =
     (if storageClass = SC_EXTERN \<or> storageClass = SC_EXTERN_C then
        (case initExpr of
           Some e \<Rightarrow> (Error m pos (ExternInitializerError nm), None, None)
         | None \<Rightarrow> (m, None, None))
      else
        (let (m1, llvmInitializer, constValue) =
           (case initExpr of
              None \<Rightarrow> (m, None, None)
            | Some e0 \<Rightarrow>
               (case TypeCheck fe e0 of
                  None \<Rightarrow> (m, None, None)
                | Some e1 \<Rightarrow>
                   (case (if \<not> isExprList fe e1 then TypeConvertExpr fe e1 type else Some e1) of
                      None \<Rightarrow> (m, None, None)
                    | Some e2 \<Rightarrow>
                       (let e3 = Optimize fe e2 in
                        case GetConstant fe e3 type of
                          Some c \<Rightarrow>
                            (m, Some c,
                             if IsConstType type \<and> isConstExpr fe e3 then Some e3 else None)
                        | None \<Rightarrow>
                            (Error m (exprPos fe e3) (NonConstantInitializerError nm),
                             None, None)))))
         in (m1,
             (case llvmInitializer of
                None \<Rightarrow> Some (getNullValue fe llvmType)
              | Some c \<Rightarrow> Some c),
             constValue)))"

text \<open>
  The end of \<^verbatim>\<open>Module::AddGlobalVariable\<close>, from \<^verbatim>\<open>sym->constValue = constValue\<close>:
  the linkage follows the storage class of the symbol, a new global variable is
  created under the name of the symbol, and the previous one, if any, is removed and
  the new one takes the name.
\<close>

definition emitGlobal ::
  "('e, 'c) frontend \<Rightarrow> ('e, 'c) Module \<Rightarrow> 'e Symbol \<Rightarrow> 'c GlobalVariable option \<Rightarrow> bool \<Rightarrow>
   llvmType \<Rightarrow> 'c option \<Rightarrow> 'e option \<Rightarrow> ('e, 'c) Module" where
  "emitGlobal fe m symb oldGV isConst llvmType llvmInitializer constValue =
     (let linkage = (if symStorageClass symb = SC_STATIC then InternalLinkage
                     else ExternalLinkage);
          md = (case oldGV of
                  None \<Rightarrow> module m
                | Some old \<Rightarrow> removeFromParent (module m) (gvName old));
          gv = \<lparr> gvName = (if nameTaken md (symName symb) then makeUniqueName fe (symName symb)
                           else symName symb),
                 gvValueType = llvmType, gvIsConstant = isConst, gvLinkage = linkage,
                 gvInitializer = llvmInitializer \<rparr>;
          sym1 = symb\<lparr>symConstValue := constValue, symStoragePtr := Some (gvName gv)\<rparr>
      in m\<lparr>module := md\<lparr>globalList := globalList md @ [gv]\<rparr>,
            symbolTable := updateVariable (symbolTable m) sym1\<rparr>)"

text \<open>
  The middle of \<^verbatim>\<open>Module::AddGlobalVariable\<close>, from the lookup of the symbol: a
  previous symbol whose type differs, or whose storage class is neither \<^verbatim>\<open>extern\<close>
  nor the new storage class, is a conflict; a previous definition (a global with an
  initializer, not \<^verbatim>\<open>extern\<close>) is a redefinition; otherwise the previous global is
  replaced.  Without a previous symbol a new one is added to the symbol table.
\<close>

definition declareGlobal ::
  "('e, 'c) frontend \<Rightarrow> ('e, 'c) Module \<Rightarrow> string \<Rightarrow> Type \<Rightarrow> bool \<Rightarrow> StorageClass \<Rightarrow>
   SourcePos \<Rightarrow> llvmType \<Rightarrow> 'c option \<Rightarrow> 'e option \<Rightarrow> fatal + ('e, 'c) Module" where
  "declareGlobal fe m nm type isConst storageClass pos llvmType llvmInitializer constValue =
     (case LookupVariable (symbolTable m) nm of
        Some symb \<Rightarrow>
          if \<not> Equal fe (symType symb) type \<or>
             (symStorageClass symb \<noteq> SC_EXTERN \<and> symStorageClass symb \<noteq> SC_EXTERN_C \<and>
              symStorageClass symb \<noteq> storageClass)
          then Inr (Error m pos (ConflictingDeclarationError nm (symPos symb)))
          else
            (case (case symStoragePtr symb of
                     None \<Rightarrow> None
                   | Some p \<Rightarrow> getGlobalVariable (module m) p) of
               None \<Rightarrow> Inl AssertFailed
             | Some gv \<Rightarrow>
                 if hasInitializer gv \<and> symStorageClass symb \<noteq> SC_EXTERN \<and>
                    symStorageClass symb \<noteq> SC_EXTERN_C
                 then Inr (Error m pos (RedefinitionError (symName symb) (symPos symb)))
                 else Inr (emitGlobal fe m symb (Some gv) isConst llvmType llvmInitializer
                             constValue))
      | None \<Rightarrow>
          (let symb = \<lparr> symName = nm, symPos = pos, symType = type,
                       symStorageClass = storageClass, symConstValue = None,
                       symStoragePtr = None, symFunction = None \<rparr>
           in Inr (emitGlobal fe (m\<lparr>symbolTable := AddVariable (symbolTable m) symb\<rparr>) symb None
                     isConst llvmType llvmInitializer constValue)))"

text \<open>
  \<^verbatim>\<open>Module::AddGlobalVariable\<close>.  A null type is \<open>None\<close>.  The debugging
  information that is attached to the global when it is asked for is not modelled.
\<close>

definition AddGlobalVariable ::
  "('e, 'c) frontend \<Rightarrow> ('e, 'c) Module \<Rightarrow> string \<Rightarrow> Type option \<Rightarrow> 'e option \<Rightarrow> bool \<Rightarrow>
   StorageClass \<Rightarrow> SourcePos \<Rightarrow> fatal + ('e, 'c) Module" where
  "AddGlobalVariable fe m nm type initExpr isConst storageClass pos =
     (case (if nm = [] then None else type) of
        None \<Rightarrow> (if errorCount m > 0 then Inr m else Inl AssertFailed)
      | Some type0 \<Rightarrow>
          if LookupFunction (symbolTable m) nm \<noteq> [] then Inr (Error m pos (ShadowingError nm))
          else if storageClass = SC_EXTERN_C then Inr (Error m pos QualifierError)
          else if IsVoidType type0 then Inr (Error m pos VoidTypeError)
          else
            (case SizeUnsizedArrays fe type0 initExpr of
               None \<Rightarrow> Inr m
             | Some type1 \<Rightarrow>
                 if isArrayType type1 \<and> TotalElementCount type1 = 0
                 then Inr (Error m pos UnsizedArrayError)
                 else
                   (case LLVMType fe type1 of
                      None \<Rightarrow> Inr m
                    | Some llvmType \<Rightarrow>
                        (let (m1, llvmInitializer, constValue) =
                               globalInitializer fe m nm type1 initExpr storageClass llvmType pos
                         in declareGlobal fe m1 nm type1 isConst storageClass pos llvmType
                              llvmInitializer constValue))))"

subsection \<open>Function declarations\<close>

text \<open>
  \<^verbatim>\<open>lCheckExportedParameterTypes\<close>: a parameter that fails the export-legality check
  is reported as a varying pointer when it is a pointer, and then as a struct with
  vector members, as a vector, or as a varying parameter.
\<close>

definition lCheckExportedParameterTypes ::
  "('e, 'c) Module \<Rightarrow> Type \<Rightarrow> string \<Rightarrow> SourcePos \<Rightarrow> ('e, 'c) Module" where
  "lCheckExportedParameterTypes m type nm pos =
     (if lRecursiveCheckValidParamType type False = False then
        (let m1 = (if isPointerType type then Error m pos (VaryingPointerParameterError nm)
                   else m)
         in if isStructType (GetBaseType type)
            then Error m1 pos (StructVectorMemberParameterError nm)
            else if isVectorType type then Error m1 pos (VectorParameterError nm)
            else Error m1 pos (VaryingParameterError nm))
      else m)"

text \<open>\<^verbatim>\<open>lCheckForStructParameters\<close>: one error at the first struct parameter.\<close>

definition lCheckForStructParameters ::
  "('e, 'c) Module \<Rightarrow> Type \<Rightarrow> SourcePos \<Rightarrow> ('e, 'c) Module" where
  "lCheckForStructParameters m ftype pos =
     (if list_ex isStructType (GetParameterTypes ftype) then Error m pos StructByValueError
      else m)"

text \<open>
  The loop of \<^verbatim>\<open>Module::AddFunctionDeclaration\<close> over the functions already
  declared under the name.  The result is the module and whether the declaration
  has returned.  An overload of the same type returns with nothing reported.
  Otherwise an \<^verbatim>\<open>export\<close> qualifier on either side is an error, after which the loop
  goes on; and an overload with the same number of parameters, all of the same types,
  is the error of overloading by return type, which returns.
\<close>

fun overloadLoop ::
  "('e, 'c) frontend \<Rightarrow> ('e, 'c) Module \<Rightarrow> Type \<Rightarrow> SourcePos \<Rightarrow> 'e Symbol list \<Rightarrow>
   fatal + (('e, 'c) Module \<times> bool)" where
  "overloadLoop fe m functionType pos [] = Inr (m, False)"
| "overloadLoop fe m functionType pos (overloadFunc # rest) =
     (if \<not> isFunctionType (symType overloadFunc) then
        (if errorCount m = 0 then overloadLoop fe m functionType pos rest
         else Inl AssertFailed)
      else if Equal fe (symType overloadFunc) functionType then Inr (m, True)
      else
        (let m1 = (if isExported functionType \<or> isExported (symType overloadFunc)
                   then Error m pos (ExportOverloadError (symPos overloadFunc))
                   else m)
         in if GetNumParameters (symType overloadFunc) = GetNumParameters functionType \<and>
               list_all2 (Equal fe) (GetParameterTypes (symType overloadFunc))
                 (GetParameterTypes functionType)
            then Inr (Error m1 pos (ReturnOverloadError (symPos overloadFunc)), True)
            else overloadLoop fe m1 functionType pos rest))"

text \<open>
  The checks for a function with C linkage: it cannot be a task, and a function of
  the same name may only be present once and with the same type.  The result is the
  module and whether the declaration has returned.
\<close>

definition externCCheck ::
  "('e, 'c) frontend \<Rightarrow> ('e, 'c) Module \<Rightarrow> string \<Rightarrow> Type \<Rightarrow> SourcePos \<Rightarrow>
   ('e, 'c) Module \<times> bool" where
  "externCCheck fe m nm functionType pos =
     (if isTask functionType then (Error m pos (TaskLinkageError nm), True)
      else
        (case LookupFunction (symbolTable m) nm of
           [] \<Rightarrow> (m, False)
         | f # fs \<Rightarrow>
             if length (f # fs) > 1
             then (Error m pos (ForeignLinkageOverloadError nm (Some (length (f # fs)))), True)
             else if Equal fe (symType f) functionType then (m, True)
             else (Error m pos (ForeignLinkageOverloadError nm None), True)))"

text \<open>
  The loop over the parameters: the export check of each parameter of an exported
  function, the no-alias attribute of uniform non-slice pointers and of references
  (not for a task), the warning for a parameter named as a global function, and the
  error for a parameter without default after one with a default.  The result is the
  module and the indices of the parameters marked no-alias.
\<close>

fun argLoop ::
  "('e, 'c) Module \<Rightarrow> Type \<Rightarrow> nat \<Rightarrow> bool \<Rightarrow> (Type \<times> string \<times> bool \<times> SourcePos) list \<Rightarrow>
   ('e, 'c) Module \<times> nat list" where
  "argLoop m functionType i seenDefaultArg [] = (m, [])"
| "argLoop m functionType i seenDefaultArg ((argType, argName, defaultValue, argPos) # rest) =
     (let m1 = (if isExported functionType
                then lCheckExportedParameterTypes m argType argName argPos else m);
          noAlias = (if \<not> isTask functionType \<and>
                        ((isPointerType argType \<and> IsUniformType argType \<and> \<not> IsSlice argType)
                         \<or> isReferenceType argType)
                     then [i] else []);
          m2 = (if LookupFunction (symbolTable m1) argName \<noteq> []
                then Warning m1 argPos (ParameterShadowsFunction argName) else m1);
          m3 = (if \<not> defaultValue \<and> seenDefaultArg
                then Error m2 argPos (DefaultOrderError argName) else m2);
          (m4, more) = argLoop m3 functionType (i + 1) (seenDefaultArg \<or> defaultValue) rest
      in (m4, noAlias @ more))"

text \<open>
  The rest of \<^verbatim>\<open>Module::AddFunctionDeclaration\<close>, from the creation of the function
  in the module.  The function is created under the mangled name, or under the name
  that the IR library chooses when the mangled name is taken; in that case it is
  erased at the end and the function that has the name is used.  Using
  \<^verbatim>\<open>inline\<close> and \<^verbatim>\<open>noinline\<close> together returns after the function was created.
  The attributes for the target are not modelled.
\<close>

definition createFunction ::
  "('e, 'c) frontend \<Rightarrow> ('e, 'c) Module \<Rightarrow> string \<Rightarrow> Type \<Rightarrow> StorageClass \<Rightarrow> bool \<Rightarrow> bool \<Rightarrow>
   SourcePos \<Rightarrow> llvmType \<Rightarrow> fatal + ('e, 'c) Module" where
  "createFunction fe m nm functionType storageClass isInline isNoInline pos llvmFunctionType =
     (let linkage = (if storageClass = SC_STATIC \<or> isInline then InternalLinkage
                     else ExternalLinkage);
          functionName =
            (if storageClass \<noteq> SC_EXTERN_C
             then nm @ Mangle fe functionType
                  @ (if mangleFunctionsWithTarget fe then GetISAString fe else [])
             else nm);
          taken = nameTaken (module m) functionName;
          function = \<lparr> fnName = (if taken then makeUniqueName fe functionName
                                   else functionName),
                       fnType = llvmFunctionType, fnLinkage = linkage,
                       fnDLLExport = (targetIsWindows fe \<and> dllExport fe \<and>
                                      storageClass \<noteq> SC_STATIC),
                       fnAttrs = [], fnNoAliasParams = [] \<rparr>
      in if isNoInline \<and> isInline then
           Inr (Error (m\<lparr>module := (module m)\<lparr>functionList :=
                          functionList (module m) @ [function]\<rparr>\<rparr>)
                  pos (QualifierConflictError nm))
         else
           (let attrs = [NoUnwind]
                  @ (if storageClass \<noteq> SC_EXTERN_C \<and> isInline then [AlwaysInline] else [])
                  @ (if isNoInline then [NoInline] else []);
                m1 = (if isExported functionType \<and>
                         lRecursiveCheckValidParamType (GetReturnType functionType) False = False
                      then Error m pos (ExportReturnTypeError nm) else m);
                m2 = (if isTask functionType \<and> IsVoidType (GetReturnType functionType) = False
                      then Error m1 pos TaskReturnTypeError else m1);
                m3 = (if isExported functionType \<or> isExternC functionType
                      then lCheckForStructParameters m2 functionType pos else m2);
                (m4, noAlias) = argLoop m3 functionType 0 False (GetParameters functionType);
                function1 = function\<lparr>fnAttrs := attrs,
                              fnNoAliasParams := (if isTask functionType then [0] else [])
                                                 @ noAlias\<rparr>;
                md = (if taken then module m4
                      else (module m4)\<lparr>functionList :=
                              functionList (module m4) @ [function1]\<rparr>);
                funSym = \<lparr> symName = nm, symPos = pos, symType = functionType,
                           symStorageClass = storageClass, symConstValue = None,
                           symStoragePtr = None,
                           symFunction = (case getFunction md functionName of
                                            None \<Rightarrow> None
                                          | Some f \<Rightarrow> Some (fnName f)) \<rparr>
            in case AddFunction (Equal fe) (symbolTable m4) funSym of
                 None \<Rightarrow> Inl AssertFailed
               | Some st \<Rightarrow> Inr (m4\<lparr>module := md, symbolTable := st\<rparr>)))"

text \<open>
  \<^verbatim>\<open>Module::AddFunctionDeclaration\<close>.  The function type is never null (the
  source asserts so).
\<close>

definition AddFunctionDeclaration ::
  "('e, 'c) frontend \<Rightarrow> ('e, 'c) Module \<Rightarrow> string \<Rightarrow> Type \<Rightarrow> StorageClass \<Rightarrow> bool \<Rightarrow> bool \<Rightarrow>
   SourcePos \<Rightarrow> fatal + ('e, 'c) Module" where
  "AddFunctionDeclaration fe m nm functionType storageClass isInline isNoInline pos =
     (if LookupVariable (symbolTable m) nm \<noteq> None
      then Inr (Error m pos (ShadowingError nm))
      else
        (case overloadLoop fe m functionType pos (LookupFunction (symbolTable m) nm) of
           Inl f \<Rightarrow> Inl f
         | Inr (m1, returned) \<Rightarrow>
             if returned then Inr m1
             else
               (let (m2, returned2) =
                      (if storageClass = SC_EXTERN_C
                       then externCCheck fe m1 nm functionType pos else (m1, False))
                in if returned2 then Inr m2
                   else
                     (case LLVMFunctionType fe functionType (storageClass = SC_EXTERN_C) of
                        None \<Rightarrow> Inr m2
                      | Some llvmFunctionType \<Rightarrow>
                          createFunction fe m2 nm functionType storageClass isInline
                            isNoInline pos llvmFunctionType))))"

text \<open>Declarations are processed one after the other; a fatal failure stops.\<close>

definition andThen :: "fatal + 'a \<Rightarrow> ('a \<Rightarrow> fatal + 'b) \<Rightarrow> fatal + 'b" where
  "andThen r f = (case r of Inl e \<Rightarrow> Inl e | Inr m \<Rightarrow> f m)"

text \<open>The module with one more global variable and the symbol that stands for it.\<close>

definition withGlobal ::
  "('e, 'c) Module \<Rightarrow> 'c GlobalVariable \<Rightarrow> 'e Symbol \<Rightarrow> ('e, 'c) Module" where
  "withGlobal m gv symb =
     m\<lparr>module := (module m)\<lparr>globalList := globalList (module m) @ [gv]\<rparr>,
       symbolTable := (symbolTable m)\<lparr>stVariables := stVariables (symbolTable m) @ [symb]\<rparr>\<rparr>"

subsection \<open>A sample front end and sample modules\<close>

text \<open>
  Concrete values on which the declaration code is run below: a front end whose
  expressions are their source text and whose constants are integers, in which two
  types are equal when they are the same, every type is lowered to a 32-bit integer
  and only the text \<^verbatim>\<open>5\<close> is a constant; the empty module; and the module that
  holds the definition \<^verbatim>\<open>int x\<close> of line 1 of \<^verbatim>\<open>a.ispc\<close>.
\<close>

definition sampleFrontend :: "(string, int) frontend" where
  "sampleFrontend =
     \<lparr> Equal = (=),
       SizeUnsizedArrays = (\<lambda>t e. Some t),
       LLVMType = (\<lambda>t. Some (IntegerTy 32)),
       LLVMFunctionType = (\<lambda>t disableMask. Some (FunctionTy (IntegerTy 32) [] False)),
       Mangle = (\<lambda>t. ''___''),
       TypeCheck = Some,
       TypeConvertExpr = (\<lambda>e t. Some e),
       Optimize = (\<lambda>e. e),
       GetConstant = (\<lambda>e t. if e = ''5'' then Some 5 else None),
       isExprList = (\<lambda>e. False),
       isConstExpr = (\<lambda>e. True),
       exprPos = (\<lambda>e. (''a.ispc'', 0)),
       getNullValue = (\<lambda>t. 0),
       makeUniqueName = (\<lambda>n. n @ ''.1''),
       targetIsWindows = False,
       dllExport = False,
       mangleFunctionsWithTarget = False,
       GetISAString = ''sse4'' \<rparr>"

definition emptyModule :: "(string, int) Module" where
  "emptyModule =
     \<lparr> errorCount = 0, diagnostics = [],
       symbolTable = \<lparr> stVariables = [], stFunctions = [] \<rparr>,
       module = \<lparr> globalList = [], functionList = [] \<rparr> \<rparr>"

definition uniformInt :: Type where
  "uniformInt = AtomicType TYPE_INT32 Uniform False"

definition uniformFloat :: Type where
  "uniformFloat = AtomicType TYPE_FLOAT Uniform False"

definition intXModule :: "(string, int) Module" where
  "intXModule =
     \<lparr> errorCount = 0, diagnostics = [],
       symbolTable =
         \<lparr> stVariables =
             [\<lparr> symName = ''x'', symPos = (''a.ispc'', 1), symType = uniformInt,
                symStorageClass = SC_NONE, symConstValue = None,
                symStoragePtr = Some ''x'', symFunction = None \<rparr>],
           stFunctions = [] \<rparr>,
       module =
         \<lparr> globalList =
             [\<lparr> gvName = ''x'', gvValueType = IntegerTy 32, gvIsConstant = False,
                gvLinkage = ExternalLinkage, gvInitializer = Some 0 \<rparr>],
           functionList = [] \<rparr> \<rparr>"

text \<open>
  The function types \<^verbatim>\<open>int foo(int a)\<close> and \<^verbatim>\<open>float foo(int a)\<close>, and the module in
  which the first is declared on line 1 of \<^verbatim>\<open>a.ispc\<close>.
\<close>

definition intOfInt :: Type where
  "intOfInt = FunctionType uniformInt [(uniformInt, ''a'', False, (''a.ispc'', 1))]
                False False False"


definition fooSymbol :: "string Symbol" where
  "fooSymbol = \<lparr> symName = ''foo'', symPos = (''a.ispc'', 1), symType = intOfInt,
                 symStorageClass = SC_NONE, symConstValue = None, symStoragePtr = None,
                 symFunction = Some ''foo___'' \<rparr>"

definition fooModule :: "(string, int) Module" where
  "fooModule =
     \<lparr> errorCount = 0, diagnostics = [],
       symbolTable = \<lparr> stVariables = [], stFunctions = [fooSymbol] \<rparr>,
       module =
         \<lparr> globalList = [],
           functionList =
             [\<lparr> fnName = ''foo___'', fnType = FunctionTy (IntegerTy 32) [] False,
                fnLinkage = ExternalLinkage, fnDLLExport = False, fnAttrs = [NoUnwind],
                fnNoAliasParams = [] \<rparr>] \<rparr> \<rparr>"

text \<open>
  Two targets of one program with the globals \<^verbatim>\<open>int a = 1\<close>, \<^verbatim>\<open>static int b = 2\<close>
  and \<^verbatim>\<open>extern int c\<close>: in the second target the value of \<^verbatim>\<open>a\<close> is an array of
  eight integers.  The dispatch module starts with the internal variable of the
  dispatch support code.
\<close>

definition globalA :: "int GlobalVariable" where
  "globalA = \<lparr> gvName = ''a'', gvValueType = IntegerTy 32, gvIsConstant = False,
               gvLinkage = ExternalLinkage, gvInitializer = Some 1 \<rparr>"

definition globalA8 :: "int GlobalVariable" where
  "globalA8 = \<lparr> gvName = ''a'', gvValueType = ArrayTy (IntegerTy 32) 8, gvIsConstant = False,
                gvLinkage = ExternalLinkage, gvInitializer = Some 1 \<rparr>"

definition globalB :: "int GlobalVariable" where
  "globalB = \<lparr> gvName = ''b'', gvValueType = IntegerTy 32, gvIsConstant = False,
               gvLinkage = InternalLinkage, gvInitializer = Some 2 \<rparr>"

definition globalC :: "int GlobalVariable" where
  "globalC = \<lparr> gvName = ''c'', gvValueType = IntegerTy 32, gvIsConstant = False,
               gvLinkage = ExternalLinkage, gvInitializer = None \<rparr>"

definition symbolOf :: "string \<Rightarrow> nat \<Rightarrow> StorageClass \<Rightarrow> string Symbol" where
  "symbolOf nm line sc =
     \<lparr> symName = nm, symPos = (''a.ispc'', line), symType = uniformInt,
       symStorageClass = sc, symConstValue = None, symStoragePtr = Some nm,
       symFunction = None \<rparr>"

definition targetModule :: "int GlobalVariable \<Rightarrow> (string, int) Module" where
  "targetModule a =
     \<lparr> errorCount = 0, diagnostics = [],
       symbolTable =
         \<lparr> stVariables = [symbolOf ''a'' 1 SC_NONE, symbolOf ''b'' 2 SC_STATIC,
                          symbolOf ''c'' 3 SC_EXTERN],
           stFunctions = [] \<rparr>,
       module = \<lparr> globalList = [a, globalB, globalC], functionList = [] \<rparr> \<rparr>"

definition dispatchSupport :: "int llvmModule" where
  "dispatchSupport =
     \<lparr> globalList =
         [\<lparr> gvName = ''__system_best_isa'', gvValueType = IntegerTy 32,
            gvIsConstant = False, gvLinkage = InternalLinkage, gvInitializer = Some (- 1) \<rparr>],
       functionList = [] \<rparr>"

section \<open>Reconciling the globals of the targets\<close>

text \<open>
  \<^verbatim>\<open>Module::getGlobalVariable(Name, AllowInternal)\<close> of the IR library: the global
  variable of that name, unless it has internal linkage and internal ones are not
  asked for.
\<close>

definition moduleGetGlobalVariable ::
  "'c llvmModule \<Rightarrow> string \<Rightarrow> bool \<Rightarrow> 'c GlobalVariable option" where
  "moduleGetGlobalVariable md nm allowInternal =
     (case find (\<lambda>gv. gvName gv = nm) (globalList md) of
        None \<Rightarrow> None
      | Some gv \<Rightarrow>
          if gvLinkage gv = InternalLinkage \<and> \<not> allowInternal then None else Some gv)"

text \<open>"Is it a global definition?": external linkage and an initializer.\<close>

definition isGlobalDefinition :: "'c GlobalVariable \<Rightarrow> bool" where
  "isGlobalDefinition gv = (gvLinkage gv = ExternalLinkage \<and> hasInitializer gv)"

text \<open>The global turned into an \<^verbatim>\<open>extern\<close> declaration: \<^verbatim>\<open>setInitializer(NULL)\<close>.\<close>

definition clearInitializer :: "'c GlobalVariable \<Rightarrow> 'c GlobalVariable" where
  "clearInitializer gv = (if isGlobalDefinition gv then gv\<lparr>gvInitializer := None\<rparr> else gv)"

definition consGlobal ::
  "'c GlobalVariable \<Rightarrow> fatal + (('e, 'c) Module \<times> 'c GlobalVariable list \<times> 'c llvmModule) \<Rightarrow>
   fatal + (('e, 'c) Module \<times> 'c GlobalVariable list \<times> 'c llvmModule)" where
  "consGlobal gv r =
     (case r of Inl f \<Rightarrow> Inl f | Inr (m, gl, md) \<Rightarrow> Inr (m, gv # gl, md))"

text \<open>
  The loop of \<^verbatim>\<open>lExtractOrCheckGlobals\<close> over the global variables of the source
  module.  The result is the current module \<open>m\<close> (whose symbol table is consulted and
  which receives the warnings), the globals of the source module as the loop leaves
  them, and the destination module.  The two assertions of the source are fatal.  The
  attributes that \<^verbatim>\<open>copyAttributesFrom\<close> copies are not modelled.
\<close>

fun globalsLoop ::
  "('e, 'c) frontend \<Rightarrow> ('e, 'c) Module \<Rightarrow> 'c GlobalVariable list \<Rightarrow> 'c llvmModule \<Rightarrow> bool \<Rightarrow>
   fatal + (('e, 'c) Module \<times> 'c GlobalVariable list \<times> 'c llvmModule)" where
  "globalsLoop fe m [] mdst check = Inr (m, [], mdst)"
| "globalsLoop fe m (gv # rest) mdst check =
     (if gvLinkage gv = ExternalLinkage \<and> hasInitializer gv then
        (let init = gvInitializer gv;
             gv1 = gv\<lparr>gvInitializer := None\<rparr>;
             type = gvValueType gv1
         in case LookupVariable (symbolTable m) (gvName gv1) of
              None \<Rightarrow> Inl AssertFailed
            | Some symb \<Rightarrow>
                if check then
                  (case moduleGetGlobalVariable mdst (gvName gv1) False of
                     None \<Rightarrow> Inl AssertFailed
                   | Some exist \<Rightarrow>
                       (let m1 = (if \<not> lCompatibleTypes (getType exist) (getType gv1)
                                  then Warning m (symPos symb)
                                         (GlobalLayoutMismatch (gvName gv1))
                                  else m)
                        in consGlobal gv1 (globalsLoop fe m1 rest mdst check)))
                else
                  (let newGlobal =
                         \<lparr> gvName = (if nameTaken mdst (gvName gv1)
                                      then makeUniqueName fe (gvName gv1) else gvName gv1),
                           gvValueType = type, gvIsConstant = gvIsConstant gv1,
                           gvLinkage = ExternalLinkage, gvInitializer = init \<rparr>
                   in consGlobal gv1
                        (globalsLoop fe m rest
                           (mdst\<lparr>globalList := globalList mdst @ [newGlobal]\<rparr>) check)))
      else consGlobal gv (globalsLoop fe m rest mdst check))"

text \<open>
  \<^verbatim>\<open>lExtractOrCheckGlobals(msrc, mdst, check)\<close>, with the current module \<open>m\<close> that
  the source reads through the global \<^verbatim>\<open>m\<close>.
\<close>

definition lExtractOrCheckGlobals ::
  "('e, 'c) frontend \<Rightarrow> ('e, 'c) Module \<Rightarrow> 'c llvmModule \<Rightarrow> 'c llvmModule \<Rightarrow> bool \<Rightarrow>
   fatal + (('e, 'c) Module \<times> 'c llvmModule \<times> 'c llvmModule)" where
  "lExtractOrCheckGlobals fe m msrc mdst check =
     (case globalsLoop fe m (globalList msrc) mdst check of
        Inl f \<Rightarrow> Inl f
      | Inr (m1, gl, mdst1) \<Rightarrow> Inr (m1, msrc\<lparr>globalList := gl\<rparr>, mdst1))"

fun isWarning :: "Diagnostic \<Rightarrow> bool" where
  "isWarning (WarningDiag pos k) = True"
| "isWarning (ErrorDiag pos k) = False"

section \<open>The driver\<close>

datatype OutputType =
  Asm | Bitcode | BitcodeText | Object | CXX | Header | Deps | DevStub | HostStub


text \<open>
  What \<^verbatim>\<open>Module::CompileAndOutput\<close> returns: the exit status, and with it the error
  count accumulated over the targets compiled so far (the error count of the module
  in single-target mode, the local counter \<^verbatim>\<open>errorCount\<close> in multi-target mode, zero
  before any target is compiled).
\<close>

record CompileResult =
  exitStatus :: int
  accumulatedErrors :: nat

text \<open>
  The collaborators of the driver that are defined outside the sources, as
  parameters: whether a target is valid, its instruction set and the name of it, the
  target string of an instruction set, the outcome of \<^verbatim>\<open>Module::CompileFile\<close> for a
  target (its return value and the module it leaves), whether a file can be opened
  for writing, \<^verbatim>\<open>IsStdin\<close>, whether the verification of a module fails, whether each
  of the other writers succeeds (by output type and file name; the writer of the
  combined header of several targets apart), the registered dependencies, and the
  module with which the dispatch module starts.  A null string is \<open>None\<close>.
\<close>

record ('e, 'c) driver =
  targetIsValid :: "string option \<Rightarrow> bool"
  getISA :: "string option \<Rightarrow> nat"
  isaString :: "string option \<Rightarrow> string"
  isGenericISA :: "string option \<Rightarrow> bool"
  ISAToTargetString :: "nat \<Rightarrow> string"
  CompileFile :: "string option \<Rightarrow> nat \<times> ('e, 'c) Module"
  canOpen :: "string \<Rightarrow> bool"
  IsStdin :: "string \<Rightarrow> bool"
  verifyModule :: "'c llvmModule \<Rightarrow> bool"
  writer :: "OutputType \<Rightarrow> string option \<Rightarrow> bool"
  writeDispatchHeader :: "string option \<Rightarrow> bool"
  registeredDependencies :: "string set"
  lInitDispatchModule :: "'c llvmModule"
  services :: "('e, 'c) frontend"














text \<open>
  The relation between the exit status and the error count that every result of the
  driver has: the status is 0 or 1, and it is 1 when errors were counted.
\<close>

definition statusReflectsErrors :: "CompileResult \<Rightarrow> bool" where
  "statusReflectsErrors r =
     ((exitStatus r = 0 \<or> exitStatus r = 1) \<and>
      (accumulatedErrors r \<noteq> 0 \<longrightarrow> exitStatus r = 1))"

subsection \<open>A sample driver\<close>





chapter \<open>Properties\<close>

section \<open>Structural compatibility of IR types\<close>

lemma lCompatibleTypes_refl: "lCompatibleTypes a a"
  by (induction a) auto

lemma isLayoutIdentical_sym: "isLayoutIdentical a b = isLayoutIdentical b a"
  by (cases a; cases b) auto

lemma lCompatibleTypes_sym: "lCompatibleTypes a b = lCompatibleTypes b a"
  by (induction a b rule: lCompatibleTypes.induct) (auto simp: isLayoutIdentical_sym)

text \<open>
  Claim C7.  The compatibility check is reflexive and symmetric; two array types with
  different element counts are never compatible, whatever their element types; two
  struct types are compatible exactly when they are layout-identical; two pointer
  types are compatible exactly when their pointees are.
\<close>

theorem lCompatibleTypes_relation:
  "lCompatibleTypes a a
   \<and> (lCompatibleTypes a b \<longleftrightarrow> lCompatibleTypes b a)
   \<and> (n1 \<noteq> n2 \<longrightarrow> \<not> lCompatibleTypes (ArrayTy e1 n1) (ArrayTy e2 n2))
   \<and> (lCompatibleTypes (StructTy s1 p1 es1) (StructTy s2 p2 es2)
        \<longleftrightarrow> isLayoutIdentical (StructTy s1 p1 es1) (StructTy s2 p2 es2))
   \<and> (lCompatibleTypes (PointerTy q1 a1) (PointerTy q2 a2) \<longleftrightarrow> lCompatibleTypes q1 q2)"
  using lCompatibleTypes_refl lCompatibleTypes_sym by simp

theorem lCompatibleTypes_relation_witness:
  "lCompatibleTypes (ArrayTy (IntegerTy 32) 4) (ArrayTy (IntegerTy 32) 4)
   \<and> (lCompatibleTypes (ArrayTy (IntegerTy 32) 4) (PointerTy (IntegerTy 8) 0)
        \<longleftrightarrow> lCompatibleTypes (PointerTy (IntegerTy 8) 0) (ArrayTy (IntegerTy 32) 4))
   \<and> (4::nat) \<noteq> 8
   \<and> \<not> lCompatibleTypes (ArrayTy (Primitive FloatTy) 4) (ArrayTy (Primitive FloatTy) 8)
   \<and> lCompatibleTypes (StructTy (Some ''a'') False [IntegerTy 32])
        (StructTy (Some ''b'') False [IntegerTy 32])
   \<and> \<not> lCompatibleTypes (PointerTy (IntegerTy 32) 0) (PointerTy (IntegerTy 64) 0)"
  using lCompatibleTypes_relation [of "ArrayTy (IntegerTy 32) 4" "PointerTy (IntegerTy 8) 0"
      4 8 "Primitive FloatTy" "Primitive FloatTy" "Some ''a''" False "[IntegerTy 32]"
      "Some ''b''" False "[IntegerTy 32]" "IntegerTy 32" 0 "IntegerTy 64" 0]
  by simp

section \<open>Per-target output file names\<close>

lemma strrchr_append_last:
  "c \<notin> set suf \<Longrightarrow> strrchr (pre @ c # suf) c = Some (length pre)"
proof (induction pre)
  case Nil
  have "strrchr suf c = None" using Nil by (induction suf) auto
  then show ?case by simp
next
  case (Cons x pre)
  then show ?case by simp
qed

lemma strrchr_absent: "c \<notin> set s \<Longrightarrow> strrchr s c = None"
  by (induction s) auto

lemma lGetTargetFileName_suffix:
  assumes "CHR ''.'' \<notin> set suf" "length isa \<le> 14"
  shows "lGetTargetFileName (pre @ CHR ''.'' # suf) isa = pre @ ''_'' @ isa @ CHR ''.'' # suf"
  using assms by (simp add: lGetTargetFileName_def strrchr_append_last strncat_def strlen_def Let_def)

lemma lGetTargetFileName_no_suffix:
  assumes "CHR ''.'' \<notin> set out" "length isa \<le> 14"
  shows "lGetTargetFileName out isa = out @ ''_'' @ isa"
  using assms by (simp add: lGetTargetFileName_def strrchr_absent strncat_def strlen_def Let_def)

text \<open>
  The buffer leaves room for fifteen characters more than the base name: one for the
  underscore and fourteen for the instruction-set string.  A longer string is cut.
\<close>

lemma lGetTargetFileName_truncates:
  "lGetTargetFileName ''foo.o'' ''abcdefghijklmno'' = ''foo_abcdefghijklmno.''"
  by (simp add: lGetTargetFileName_def strncat_def strlen_def Let_def)

text \<open>
  Claim C8.  For a base name with a \<^verbatim>\<open>'.'\<close>, written as the part before the last
  \<^verbatim>\<open>'.'\<close> and the suffix after it, the result is the first part, an underscore, the
  instruction-set string and the suffix with its \<^verbatim>\<open>'.'\<close>; for a base name without
  \<^verbatim>\<open>'.'\<close> it is the base name, an underscore and the instruction-set string.  This
  holds for instruction-set strings of up to fourteen characters, which all short
  identifiers such as \<^verbatim>\<open>avx2\<close> and \<^verbatim>\<open>sse4\<close> are.  In particular \<^verbatim>\<open>foo.o\<close> with
  \<^verbatim>\<open>avx2\<close> gives \<^verbatim>\<open>foo_avx2.o\<close>, and \<^verbatim>\<open>foo\<close> with \<^verbatim>\<open>sse4\<close> gives \<^verbatim>\<open>foo_sse4\<close>.
\<close>

theorem lGetTargetFileName_splice:
  "(CHR ''.'' \<notin> set suf \<and> length isa \<le> 14 \<longrightarrow>
      lGetTargetFileName (pre @ CHR ''.'' # suf) isa = pre @ ''_'' @ isa @ CHR ''.'' # suf)
   \<and> (CHR ''.'' \<notin> set out \<and> length isa \<le> 14 \<longrightarrow>
      lGetTargetFileName out isa = out @ ''_'' @ isa)
   \<and> lGetTargetFileName ''foo.o'' ''avx2'' = ''foo_avx2.o''
   \<and> lGetTargetFileName ''foo'' ''sse4'' = ''foo_sse4''"
proof -
  have "lGetTargetFileName ''foo.o'' ''avx2'' = ''foo_avx2.o''"
    by (simp add: lGetTargetFileName_def strncat_def strlen_def Let_def)
  moreover have "lGetTargetFileName ''foo'' ''sse4'' = ''foo_sse4''"
    by (simp add: lGetTargetFileName_def strncat_def strlen_def Let_def)
  ultimately show ?thesis
    using lGetTargetFileName_suffix lGetTargetFileName_no_suffix by blast
qed

theorem lGetTargetFileName_splice_witness:
  "CHR ''.'' \<notin> set ''gz'' \<and> length ''avx512skx'' \<le> 14
   \<and> lGetTargetFileName ''out.tar.gz'' ''avx512skx'' = ''out.tar_avx512skx.gz''
   \<and> CHR ''.'' \<notin> set ''kernel''
   \<and> lGetTargetFileName ''kernel'' ''avx512skx'' = ''kernel_avx512skx''"
  using lGetTargetFileName_splice [of "''gz''" "''avx512skx''" "''out.tar''" "''kernel''"]
  by simp

section \<open>Dependency registration and the dependency listing\<close>

lemma RegisterDependency_finite: "finite S \<Longrightarrow> finite (RegisterDependency n S)"
  by (simp add: RegisterDependency_def)












section \<open>The dispatch function\<close>

lemma sint_LLVMInt32: "i < 2 ^ 31 \<Longrightarrow> sint (LLVMInt32 i) = int i"
proof -
  assume a: "i < 2 ^ 31"
  then have b: "int i < 2 ^ 31" by simp
  have "sint (word_of_nat i :: 32 word) = signed_take_bit 31 (int i)"
    by (simp add: signed_of_nat)
  also have "\<dots> = int i"
    by (rule signed_take_bit_int_eq_self) (use b in auto)
  finally show ?thesis by (simp only: LLVMInt32_def)
qed

lemma runBlock_emit_abort:
  assumes "n \<le> 2 ^ 31" "\<forall>j<n. targetFuncs j \<noteq> None \<longrightarrow> sint systemISA < int j"
  shows "runBlock systemISA (emitCandidates n targetFuncs) = Aborts"
  using assms
proof (induction n)
  case 0
  then show ?case by simp
next
  case (Suc n)
  have s: "sint (LLVMInt32 n) = int n" using Suc.prems by (intro sint_LLVMInt32) simp
  have "runBlock systemISA (emitCandidates n targetFuncs) = Aborts"
    using Suc by simp
  then show ?case using Suc.prems(2) by (auto split: option.splits simp: s)
qed

lemma runBlock_emit_call:
  assumes "n \<le> 2 ^ 31" "i < n" "targetFuncs i = Some f" "int i \<le> sint systemISA"
    "\<forall>j. i < j \<and> j < n \<and> targetFuncs j \<noteq> None \<longrightarrow> sint systemISA < int j"
  shows "runBlock systemISA (emitCandidates n targetFuncs) = Calls f"
  using assms
proof (induction n)
  case 0
  then show ?case by simp
next
  case (Suc n)
  have s: "sint (LLVMInt32 n) = int n" using Suc.prems by (intro sint_LLVMInt32) simp
  show ?case
  proof (cases "i = n")
    case True
    then show ?thesis using Suc.prems by (simp add: s)
  next
    case False
    then have "i < n" using Suc.prems by simp
    then have "runBlock systemISA (emitCandidates n targetFuncs) = Calls f"
      using Suc.IH Suc.prems by simp
    then show ?thesis using Suc.prems(5) \<open>i < n\<close>
      by (auto split: option.splits simp: s)
  qed
qed

lemma testedLevels_emit:
  "testedLevels (emitCandidates n targetFuncs)
   = map LLVMInt32 (filter (\<lambda>i. targetFuncs i \<noteq> None) (rev [0..<n]))"
  by (induction n) (auto split: option.splits)

lemma descending_filter_rev_upt:
  "sorted_wrt (\<lambda>a b. b < a) (filter P (rev [0..<n]))"
  by (induction n) auto

lemma set_filter_rev_upt_bound: "x \<in> set (filter P (rev [0..<n])) \<Longrightarrow> x < n"
  by simp

lemma testedLevels_descending:
  assumes "n \<le> 2 ^ 31"
  shows "sorted_wrt (\<lambda>a b. sint b < sint a) (testedLevels (emitCandidates n targetFuncs))"
proof -
  have "sorted_wrt (\<lambda>a b. sint (LLVMInt32 b) < sint (LLVMInt32 a))
          (filter (\<lambda>i. targetFuncs i \<noteq> None) (rev [0..<n]))"
  proof (rule sorted_wrt_mono_rel [OF _ descending_filter_rev_upt])
    fix x y
    assume "x \<in> set (filter (\<lambda>i. targetFuncs i \<noteq> None) (rev [0..<n]))"
      "y \<in> set (filter (\<lambda>i. targetFuncs i \<noteq> None) (rev [0..<n]))" "y < x"
    then have "x < 2 ^ 31" "y < 2 ^ 31" "y < x" using assms by auto
    then show "sint (LLVMInt32 y) < sint (LLVMInt32 x)" by (simp add: sint_LLVMInt32)
  qed
  then show ?thesis by (simp add: testedLevels_emit sorted_wrt_map)
qed

lemma runDispatch_call:
  assumes "NUM_ISAS \<le> 2 ^ 31" "i < NUM_ISAS" "func i = Some f" "int i \<le> sint systemISA"
    "\<forall>j. i < j \<and> j < NUM_ISAS \<and> func j \<noteq> None \<longrightarrow> sint systemISA < int j"
  shows "runDispatch systemISA (lCreateDispatchFunction NUM_ISAS nm func) = Calls f"
  unfolding runDispatch_def lCreateDispatchFunction_def Let_def
  using assms by (simp add: runBlock_emit_call [where i = i])

lemma runDispatch_abort:
  assumes "NUM_ISAS \<le> 2 ^ 31"
    "\<forall>j<NUM_ISAS. func j \<noteq> None \<longrightarrow> sint systemISA < int j"
  shows "runDispatch systemISA (lCreateDispatchFunction NUM_ISAS nm func) = Aborts"
  unfolding runDispatch_def lCreateDispatchFunction_def Let_def
  using assms by (simp add: runBlock_emit_abort)

lemma testedLevels_dispatch:
  assumes "NUM_ISAS \<le> 2 ^ 31"
  shows "sorted_wrt (\<lambda>a b. sint b < sint a)
           (testedLevels (entry (lCreateDispatchFunction NUM_ISAS nm func)))"
  unfolding lCreateDispatchFunction_def Let_def
  using assms by (simp add: testedLevels_descending)

text \<open>
  Claim C3.  The emitted code tests the candidate levels in strictly descending
  order, each with the signed comparison "detected level \<open>\<ge>\<close> candidate level",
  and calls the first variant whose test succeeds: the highest present variant that
  does not exceed the detected level; when every present variant exceeds the detected
  level it reaches the call of \<^verbatim>\<open>abort\<close>.  For variants at the levels 2 and 5 only:
  a detected level of 5 calls the level-5 variant, a detected level of 3 calls the
  level-2 variant, and a detected level below 2 reaches \<^verbatim>\<open>abort\<close>.  The number of
  instruction sets is at most \<open>2\<^sup>3\<^sup>1\<close>, so that every level is a non-negative 32-bit
  signed value.
\<close>

theorem dispatch_selects_highest_supported:
  assumes "NUM_ISAS \<le> 2 ^ 31"
  shows "sorted_wrt (\<lambda>a b. sint b < sint a)
           (testedLevels (entry (lCreateDispatchFunction NUM_ISAS nm func)))
   \<and> (\<forall>i f. i < NUM_ISAS \<and> func i = Some f \<and> int i \<le> sint systemISA
          \<and> (\<forall>j. i < j \<and> j < NUM_ISAS \<and> func j \<noteq> None \<longrightarrow> sint systemISA < int j)
        \<longrightarrow> runDispatch systemISA (lCreateDispatchFunction NUM_ISAS nm func) = Calls f)
   \<and> ((\<forall>j<NUM_ISAS. func j \<noteq> None \<longrightarrow> sint systemISA < int j)
        \<longrightarrow> runDispatch systemISA (lCreateDispatchFunction NUM_ISAS nm func) = Aborts)
   \<and> (5 < NUM_ISAS \<and> func 2 = Some f2 \<and> func 5 = Some f5
          \<and> (\<forall>j. j \<noteq> 2 \<and> j \<noteq> 5 \<longrightarrow> func j = None)
        \<longrightarrow> runDispatch 5 (lCreateDispatchFunction NUM_ISAS nm func) = Calls f5
          \<and> runDispatch 3 (lCreateDispatchFunction NUM_ISAS nm func) = Calls f2
          \<and> (\<forall>d. sint d < 2
                \<longrightarrow> runDispatch d (lCreateDispatchFunction NUM_ISAS nm func) = Aborts))"
proof -
  have levels: "sorted_wrt (\<lambda>a b. sint b < sint a)
           (testedLevels (entry (lCreateDispatchFunction NUM_ISAS nm func)))"
    using assms by (rule testedLevels_dispatch)
  have call: "\<forall>i f. i < NUM_ISAS \<and> func i = Some f \<and> int i \<le> sint systemISA
          \<and> (\<forall>j. i < j \<and> j < NUM_ISAS \<and> func j \<noteq> None \<longrightarrow> sint systemISA < int j)
        \<longrightarrow> runDispatch systemISA (lCreateDispatchFunction NUM_ISAS nm func) = Calls f"
  proof (intro allI impI)
    fix i f
    assume h: "i < NUM_ISAS \<and> func i = Some f \<and> int i \<le> sint systemISA
          \<and> (\<forall>j. i < j \<and> j < NUM_ISAS \<and> func j \<noteq> None \<longrightarrow> sint systemISA < int j)"
    show "runDispatch systemISA (lCreateDispatchFunction NUM_ISAS nm func) = Calls f"
    proof (rule runDispatch_call [where i = i])
      show "NUM_ISAS \<le> 2 ^ 31" by (rule assms)
      show "i < NUM_ISAS" using h by (rule conjunct1)
      show "func i = Some f" using h by simp
      show "int i \<le> sint systemISA" using h by simp
      show "\<forall>j. i < j \<and> j < NUM_ISAS \<and> func j \<noteq> None \<longrightarrow> sint systemISA < int j"
        using h by (elim conjE)
    qed
  qed
  have abort: "(\<forall>j<NUM_ISAS. func j \<noteq> None \<longrightarrow> sint systemISA < int j)
        \<longrightarrow> runDispatch systemISA (lCreateDispatchFunction NUM_ISAS nm func) = Aborts"
    using assms by (intro impI runDispatch_abort)
  have two_five: "5 < NUM_ISAS \<and> func 2 = Some f2 \<and> func 5 = Some f5
          \<and> (\<forall>j. j \<noteq> 2 \<and> j \<noteq> 5 \<longrightarrow> func j = None)
        \<longrightarrow> runDispatch 5 (lCreateDispatchFunction NUM_ISAS nm func) = Calls f5
          \<and> runDispatch 3 (lCreateDispatchFunction NUM_ISAS nm func) = Calls f2
          \<and> (\<forall>d. sint d < 2
                \<longrightarrow> runDispatch d (lCreateDispatchFunction NUM_ISAS nm func) = Aborts)"
  proof (intro impI)
    assume a: "5 < NUM_ISAS \<and> func 2 = Some f2 \<and> func 5 = Some f5
          \<and> (\<forall>j. j \<noteq> 2 \<and> j \<noteq> 5 \<longrightarrow> func j = None)"
    then have n5: "5 < NUM_ISAS" and f2: "func 2 = Some f2" and f5: "func 5 = Some f5"
      and none: "\<forall>j. j \<noteq> 2 \<and> j \<noteq> 5 \<longrightarrow> func j = None"
      by simp_all
    have only: "j = 2 \<or> j = 5" if present: "func j \<noteq> None" for j
    proof (rule ccontr)
      assume "\<not> (j = 2 \<or> j = 5)"
      then have "j \<noteq> 2 \<and> j \<noteq> 5" by simp
      then have "func j = None" using none by simp
      then show False using present by simp
    qed
    have r5: "runDispatch 5 (lCreateDispatchFunction NUM_ISAS nm func) = Calls f5"
    proof (rule runDispatch_call [where i = 5])
      show "NUM_ISAS \<le> 2 ^ 31" by (rule assms)
      show "5 < NUM_ISAS" by (rule n5)
      show "func 5 = Some f5" by (rule f5)
      show "int 5 \<le> sint (5 :: 32 word)" by simp
      show "\<forall>j. 5 < j \<and> j < NUM_ISAS \<and> func j \<noteq> None \<longrightarrow> sint (5 :: 32 word) < int j"
      proof (intro allI impI)
        fix j assume j: "5 < j \<and> j < NUM_ISAS \<and> func j \<noteq> None"
        then have "func j \<noteq> None" by simp
        then have "j = 2 \<or> j = 5" by (rule only)
        moreover from j have "5 < j" by simp
        ultimately have False by auto
        then show "sint (5 :: 32 word) < int j" by simp
      qed
    qed
    have r3: "runDispatch 3 (lCreateDispatchFunction NUM_ISAS nm func) = Calls f2"
    proof (rule runDispatch_call [where i = 2])
      show "NUM_ISAS \<le> 2 ^ 31" by (rule assms)
      show "2 < NUM_ISAS" using n5 by simp
      show "func 2 = Some f2" by (rule f2)
      show "int 2 \<le> sint (3 :: 32 word)" by simp
      show "\<forall>j. 2 < j \<and> j < NUM_ISAS \<and> func j \<noteq> None \<longrightarrow> sint (3 :: 32 word) < int j"
      proof (intro allI impI)
        fix j assume j: "2 < j \<and> j < NUM_ISAS \<and> func j \<noteq> None"
        then have "func j \<noteq> None" by simp
        then have "j = 2 \<or> j = 5" by (rule only)
        moreover from j have "2 < j" by simp
        ultimately have "j = 5" by auto
        then show "sint (3 :: 32 word) < int j" by simp
      qed
    qed
    have rd: "\<forall>d. sint d < 2
                \<longrightarrow> runDispatch d (lCreateDispatchFunction NUM_ISAS nm func) = Aborts"
    proof (intro allI impI)
      fix d :: "32 word"
      assume d: "sint d < 2"
      show "runDispatch d (lCreateDispatchFunction NUM_ISAS nm func) = Aborts"
      proof (rule runDispatch_abort)
        show "NUM_ISAS \<le> 2 ^ 31" by (rule assms)
        show "\<forall>j<NUM_ISAS. func j \<noteq> None \<longrightarrow> sint d < int j"
        proof (intro allI impI)
          fix j assume "j < NUM_ISAS" and "func j \<noteq> None"
          from this(2) have "j = 2 \<or> j = 5" by (rule only)
          then show "sint d < int j" using d by auto
        qed
      qed
    qed
    from r5 r3 rd show "runDispatch 5 (lCreateDispatchFunction NUM_ISAS nm func) = Calls f5
          \<and> runDispatch 3 (lCreateDispatchFunction NUM_ISAS nm func) = Calls f2
          \<and> (\<forall>d. sint d < 2
                \<longrightarrow> runDispatch d (lCreateDispatchFunction NUM_ISAS nm func) = Aborts)"
      by (intro conjI)
  qed
  from levels call abort two_five show ?thesis by (intro conjI)
qed

theorem dispatch_selects_highest_supported_witness:
  "(8::nat) \<le> 2 ^ 31
   \<and> runDispatch 5 (lCreateDispatchFunction 8 ''f''
        ((\<lambda>i. None)(2 := Some ''f_sse4'', 5 := Some ''f_avx2''))) = Calls ''f_avx2''
   \<and> runDispatch 3 (lCreateDispatchFunction 8 ''f''
        ((\<lambda>i. None)(2 := Some ''f_sse4'', 5 := Some ''f_avx2''))) = Calls ''f_sse4''
   \<and> sint (0 :: 32 word) < 2
   \<and> runDispatch 0 (lCreateDispatchFunction 8 ''f''
        ((\<lambda>i. None)(2 := Some ''f_sse4'', 5 := Some ''f_avx2''))) = Aborts
   \<and> sint (- 1 :: 32 word) < 2
   \<and> runDispatch (- 1) (lCreateDispatchFunction 8 ''f''
        ((\<lambda>i. None)(2 := Some ''f_sse4'', 5 := Some ''f_avx2''))) = Aborts"
proof -
  let ?func = "(\<lambda>i::nat. None)(2 := Some ''f_sse4'', 5 := Some ''f_avx2'')"
  have n: "(8::nat) \<le> 2 ^ 31" by simp
  note t = dispatch_selects_highest_supported [OF n, of "''f''" ?func 0 "''f_sse4''" "''f_avx2''"]
  have h: "5 < (8::nat) \<and> ?func 2 = Some ''f_sse4'' \<and> ?func 5 = Some ''f_avx2''
       \<and> (\<forall>j. j \<noteq> 2 \<and> j \<noteq> 5 \<longrightarrow> ?func j = None)"
    by simp
  note c = mp [OF t [THEN conjunct2, THEN conjunct2, THEN conjunct2] h]
  have s0: "sint (0 :: 32 word) < 2" and s1: "sint (- 1 :: 32 word) < 2" by simp_all
  note a0 = mp [OF spec [OF c [THEN conjunct2, THEN conjunct2], of 0] s0]
  note a1 = mp [OF spec [OF c [THEN conjunct2, THEN conjunct2], of "- 1"] s1]
  from n c [THEN conjunct1] c [THEN conjunct2, THEN conjunct1] s0 a0 s1 a1
  show ?thesis by (intro conjI)
qed
section \<open>The export-legality check\<close>

text \<open>
  Claim C2, as stated, fails.  A struct that holds a varying struct whose own
  members are uniform is accepted, although the member is of a varying type; and a
  struct whose only member is a uniform vector is refused, although all of its members
  are uniform.
\<close>

theorem export_legality_counterexample:
  "IsVaryingType (StructType ''Inner'' [AtomicType TYPE_INT32 Uniform False] Varying False)
   \<and> lRecursiveCheckValidParamType
        (StructType ''Outer''
           [StructType ''Inner'' [AtomicType TYPE_INT32 Uniform False] Varying False]
           Uniform False) False
   \<and> IsUniformType (VectorType (AtomicType TYPE_FLOAT Uniform False) 4)
   \<and> \<not> lRecursiveCheckValidParamType
        (StructType ''S'' [VectorType (AtomicType TYPE_FLOAT Uniform False) 4] Uniform False)
        False"
  by (simp add: IsVaryingType_def IsUniformType_def)

lemma uniform_leaf_legal: "isUniformLeaf t \<Longrightarrow> lRecursiveCheckValidParamType t vectorOk"
  by (cases t) (auto simp: isUniformLeaf_def IsVaryingType_def)

text \<open>
  Claim C2, amended.  The check is a function of the type and the flag.  It refuses a
  varying pointer under either flag; with vectors not allowed it refuses a vector and
  a varying atomic, enum or reference type.  A struct is legal exactly when each of
  its members is legal under the same flag, and an array exactly when its element
  type is.  A pointer that is not varying is legal exactly when its base type is
  legal with vectors allowed, and with vectors allowed varying atomic data and vectors
  are legal.  A struct whose members are all uniform atomic or enum types is legal.
\<close>

theorem export_legality_rule:
  "lRecursiveCheckValidParamType (PointerType b Varying c sl) vectorOk = False
   \<and> lRecursiveCheckValidParamType (VectorType e n) False = False
   \<and> lRecursiveCheckValidParamType (AtomicType bt Varying c1) False = False
   \<and> lRecursiveCheckValidParamType (EnumType en Varying c2) False = False
   \<and> lRecursiveCheckValidParamType (ReferenceType r) False = (\<not> IsVaryingType r)
   \<and> lRecursiveCheckValidParamType (StructType sn els sv sc) vectorOk
       = (\<forall>t \<in> set els. lRecursiveCheckValidParamType t vectorOk)
   \<and> lRecursiveCheckValidParamType (ArrayType ae an) vectorOk
       = lRecursiveCheckValidParamType ae vectorOk
   \<and> (pv \<noteq> Varying \<longrightarrow>
        lRecursiveCheckValidParamType (PointerType pb pv pc psl) vectorOk
        = lRecursiveCheckValidParamType pb True)
   \<and> lRecursiveCheckValidParamType (AtomicType bt Varying c1) True
   \<and> lRecursiveCheckValidParamType (VectorType (AtomicType bt v3 c1) n) True
   \<and> ((\<forall>t \<in> set els. isUniformLeaf t) \<longrightarrow>
        lRecursiveCheckValidParamType (StructType sn els sv sc) False)"
  by (auto simp: IsVaryingType_def list_all_iff uniform_leaf_legal)

theorem export_legality_rule_witness:
  "Uniform \<noteq> Varying
   \<and> lRecursiveCheckValidParamType
        (PointerType (AtomicType TYPE_FLOAT Varying False) Uniform False False) False
   \<and> isUniformLeaf (AtomicType TYPE_INT32 Uniform False)
   \<and> isUniformLeaf (EnumType ''Color'' Uniform False)
   \<and> lRecursiveCheckValidParamType
        (StructType ''P'' [AtomicType TYPE_INT32 Uniform False, EnumType ''Color'' Uniform False]
           Uniform False) False
   \<and> \<not> lRecursiveCheckValidParamType
        (StructType ''Q'' [AtomicType TYPE_INT32 Uniform False,
                           AtomicType TYPE_FLOAT Varying False] Uniform False) False"
proof -
  note t = export_legality_rule [where pv = Uniform and pb = "AtomicType TYPE_FLOAT Varying False"
      and pc = False and psl = False and vectorOk = False and bt = TYPE_FLOAT and ?c1.0 = False
      and els = "[AtomicType TYPE_INT32 Uniform False, EnumType ''Color'' Uniform False]"
      and sn = "''P''" and sv = Uniform and sc = False]
  note u = export_legality_rule [where vectorOk = False
      and els = "[AtomicType TYPE_INT32 Uniform False, AtomicType TYPE_FLOAT Varying False]"
      and sn = "''Q''" and sv = Uniform and sc = False and bt = TYPE_FLOAT and ?c1.0 = False]
  have v: "Uniform \<noteq> Varying" by simp
  have l1: "isUniformLeaf (AtomicType TYPE_INT32 Uniform False)"
    and l2: "isUniformLeaf (EnumType ''Color'' Uniform False)"
    by (simp_all add: isUniformLeaf_def)
  note c8 = mp [OF t [THEN conjunct2, THEN conjunct2, THEN conjunct2, THEN conjunct2,
      THEN conjunct2, THEN conjunct2, THEN conjunct2, THEN conjunct1] v]
  note c9 = t [THEN conjunct2, THEN conjunct2, THEN conjunct2, THEN conjunct2,
      THEN conjunct2, THEN conjunct2, THEN conjunct2, THEN conjunct2, THEN conjunct1]
  have p: "lRecursiveCheckValidParamType
        (PointerType (AtomicType TYPE_FLOAT Varying False) Uniform False False) False"
    unfolding c8 by (rule c9)
  have all: "\<forall>t \<in> set [AtomicType TYPE_INT32 Uniform False, EnumType ''Color'' Uniform False].
      isUniformLeaf t"
    using l1 l2 by simp
  note s = mp [OF t [THEN conjunct2, THEN conjunct2, THEN conjunct2, THEN conjunct2,
      THEN conjunct2, THEN conjunct2, THEN conjunct2, THEN conjunct2, THEN conjunct2,
      THEN conjunct2] all]
  note u3 = u [THEN conjunct2, THEN conjunct2, THEN conjunct1]
  note u6 = u [THEN conjunct2, THEN conjunct2, THEN conjunct2, THEN conjunct2,
      THEN conjunct2, THEN conjunct1]
  have q: "\<not> lRecursiveCheckValidParamType
        (StructType ''Q'' [AtomicType TYPE_INT32 Uniform False,
                           AtomicType TYPE_FLOAT Varying False] Uniform False) False"
    unfolding u6 using u3 by simp
  from v p l1 l2 s q show ?thesis by (intro conjI)
qed

section \<open>Declarations of global variables\<close>

lemma find_None_append: "find P xs = None \<Longrightarrow> find P (xs @ ys) = find P ys"
  by (induction xs) (auto split: if_splits)

lemma find_None_map_id:
  "find (\<lambda>s. symName s = nm) xs = None \<Longrightarrow>
   map (\<lambda>s. if symName s = nm then y else s) xs = xs"
  by (induction xs) (auto split: if_splits)

lemma find_None_filter: "find P xs = None \<Longrightarrow> filter P xs = []"
  by (induction xs) (auto split: if_splits)

lemma emitGlobal_fresh:
  assumes "LookupVariable (symbolTable m) nm = None" "\<not> nameTaken (module m) nm"
  shows "emitGlobal fe
           (m\<lparr>symbolTable := AddVariable (symbolTable m)
                \<lparr> symName = nm, symPos = pos, symType = T, symStorageClass = sc,
                  symConstValue = None, symStoragePtr = None, symFunction = None \<rparr>\<rparr>)
           \<lparr> symName = nm, symPos = pos, symType = T, symStorageClass = sc,
             symConstValue = None, symStoragePtr = None, symFunction = None \<rparr>
           None isConst lt init cv
         = m\<lparr>module := (module m)\<lparr>globalList := globalList (module m) @
                 [\<lparr> gvName = nm, gvValueType = lt, gvIsConstant = isConst,
                    gvLinkage = (if sc = SC_STATIC then InternalLinkage else ExternalLinkage),
                    gvInitializer = init \<rparr>]\<rparr>,
              symbolTable := (symbolTable m)\<lparr>stVariables := stVariables (symbolTable m) @
                 [\<lparr> symName = nm, symPos = pos, symType = T, symStorageClass = sc,
                    symConstValue = cv, symStoragePtr = Some nm, symFunction = None \<rparr>]\<rparr>\<rparr>"
  using assms
  by (simp add: emitGlobal_def Let_def AddVariable_def updateVariable_def LookupVariable_def
      find_None_map_id)

lemma declareGlobal_fresh:
  assumes "LookupVariable (symbolTable m) nm = None" "\<not> nameTaken (module m) nm"
  shows "declareGlobal fe m nm T isConst sc pos lt init cv
         = Inr (m\<lparr>module := (module m)\<lparr>globalList := globalList (module m) @
                 [\<lparr> gvName = nm, gvValueType = lt, gvIsConstant = isConst,
                    gvLinkage = (if sc = SC_STATIC then InternalLinkage else ExternalLinkage),
                    gvInitializer = init \<rparr>]\<rparr>,
              symbolTable := (symbolTable m)\<lparr>stVariables := stVariables (symbolTable m) @
                 [\<lparr> symName = nm, symPos = pos, symType = T, symStorageClass = sc,
                    symConstValue = cv, symStoragePtr = Some nm, symFunction = None \<rparr>]\<rparr>\<rparr>)"
  using assms by (simp add: declareGlobal_def Let_def emitGlobal_fresh)

lemma declareGlobal_conflict:
  assumes "LookupVariable (symbolTable m) nm = Some s"
    "\<not> Equal fe (symType s) T \<or>
       (symStorageClass s \<noteq> SC_EXTERN \<and> symStorageClass s \<noteq> SC_EXTERN_C \<and>
        symStorageClass s \<noteq> sc)"
  shows "declareGlobal fe m nm T isConst sc pos lt init cv
         = Inr (Error m pos (ConflictingDeclarationError nm (symPos s)))"
  using assms by (auto simp: declareGlobal_def)

lemma AddGlobalVariable_checked:
  assumes "nm \<noteq> []" "LookupFunction (symbolTable m) nm = []" "sc \<noteq> SC_EXTERN_C"
    "\<not> IsVoidType T" "SizeUnsizedArrays fe T initExpr = Some T1"
    "\<not> (isArrayType T1 \<and> TotalElementCount T1 = 0)" "LLVMType fe T1 = Some lt"
  shows "AddGlobalVariable fe m nm (Some T) initExpr isConst sc pos =
     (case globalInitializer fe m nm T1 initExpr sc lt pos of
        (m1, init, cv) \<Rightarrow> declareGlobal fe m1 nm T1 isConst sc pos lt init cv)"
  using assms by (auto simp: AddGlobalVariable_def)

lemma globalInitializer_none:
  "globalInitializer fe m nm T None sc lt pos =
     (m, (if sc = SC_EXTERN \<or> sc = SC_EXTERN_C then None else Some (getNullValue fe lt)), None)"
  by (simp add: globalInitializer_def)

lemma globalInitializer_extern_init:
  "globalInitializer fe m nm T (Some e) SC_EXTERN lt pos =
     (Error m pos (ExternInitializerError nm), None, None)"
  by (simp add: globalInitializer_def)

lemma Error_keeps: "symbolTable (Error m pos k) = symbolTable m"
  "module (Error m pos k) = module m"
  "errorCount (Error m pos k) = errorCount m + 1"
  "diagnostics (Error m pos k) = diagnostics m @ [ErrorDiag pos k]"
  by (simp_all add: Error_def)

lemmas sample_defs = sampleFrontend_def emptyModule_def uniformInt_def uniformFloat_def
  intXModule_def

lemmas decl_defs = AddGlobalVariable_def globalInitializer_def declareGlobal_def
  emitGlobal_def LookupFunction_def LookupVariable_def AddVariable_def updateVariable_def
  nameTaken_def getGlobalVariable_def getFunction_def removeFromParent_def hasInitializer_def
  Error_def Let_def

text \<open>
  Claim C1, as stated, fails.  After the definition \<^verbatim>\<open>int x\<close>, the declaration
  \<^verbatim>\<open>extern int x\<close> of the same type is refused as a conflicting declaration: the
  previous symbol is not \<^verbatim>\<open>extern\<close> and its storage class differs from the new one.
\<close>

theorem int_then_extern_int_counterexample:
  "AddGlobalVariable sampleFrontend emptyModule ''x'' (Some uniformInt) None False SC_NONE
      (''a.ispc'', 1) = Inr intXModule
   \<and> errorCount intXModule = 0
   \<and> AddGlobalVariable sampleFrontend intXModule ''x'' (Some uniformInt) None False SC_EXTERN
      (''a.ispc'', 2)
     = Inr (intXModule\<lparr> errorCount := 1,
              diagnostics := [ErrorDiag (''a.ispc'', 2)
                                (ConflictingDeclarationError ''x'' (''a.ispc'', 1))] \<rparr>)"
  by (simp add: sample_defs decl_defs)

lemma find_None_filter_neq:
  "find (\<lambda>g. gvName g = nm) xs = None \<Longrightarrow> filter (\<lambda>g. gvName g \<noteq> nm) xs = xs"
  by (induction xs) (auto split: if_splits)

lemma declare_extern_then_define:
  assumes "nm \<noteq> []" "LookupFunction (symbolTable m) nm = []"
    "LookupVariable (symbolTable m) nm = None" "\<not> nameTaken (module m) nm"
    "\<not> IsVoidType T" "SizeUnsizedArrays fe T None = Some T"
    "\<not> (isArrayType T \<and> TotalElementCount T = 0)" "LLVMType fe T = Some lt"
    "Equal fe T T"
  shows "AddGlobalVariable fe m nm (Some T) None isConst SC_EXTERN p1 =
     Inr (m\<lparr>module := (module m)\<lparr>globalList := globalList (module m) @
                 [\<lparr> gvName = nm, gvValueType = lt, gvIsConstant = isConst,
                    gvLinkage = ExternalLinkage, gvInitializer = None \<rparr>]\<rparr>,
            symbolTable := (symbolTable m)\<lparr>stVariables := stVariables (symbolTable m) @
                 [\<lparr> symName = nm, symPos = p1, symType = T, symStorageClass = SC_EXTERN,
                    symConstValue = None, symStoragePtr = Some nm, symFunction = None \<rparr>]\<rparr>\<rparr>)"
    (is "?first = Inr ?m1")
  and "AddGlobalVariable fe
         (m\<lparr>module := (module m)\<lparr>globalList := globalList (module m) @
                 [\<lparr> gvName = nm, gvValueType = lt, gvIsConstant = isConst,
                    gvLinkage = ExternalLinkage, gvInitializer = None \<rparr>]\<rparr>,
            symbolTable := (symbolTable m)\<lparr>stVariables := stVariables (symbolTable m) @
                 [\<lparr> symName = nm, symPos = p1, symType = T, symStorageClass = SC_EXTERN,
                    symConstValue = None, symStoragePtr = Some nm, symFunction = None \<rparr>]\<rparr>\<rparr>)
         nm (Some T) None isConst2 SC_NONE p2 =
     Inr (m\<lparr>module := (module m)\<lparr>globalList := globalList (module m) @
                 [\<lparr> gvName = nm, gvValueType = lt, gvIsConstant = isConst2,
                    gvLinkage = ExternalLinkage,
                    gvInitializer = Some (getNullValue fe lt) \<rparr>]\<rparr>,
            symbolTable := (symbolTable m)\<lparr>stVariables := stVariables (symbolTable m) @
                 [\<lparr> symName = nm, symPos = p1, symType = T, symStorageClass = SC_EXTERN,
                    symConstValue = None, symStoragePtr = Some nm, symFunction = None \<rparr>]\<rparr>\<rparr>)"
    (is "?second = Inr ?m2")
proof -
  show "?first = Inr ?m1"
    using assms
    by (simp add: AddGlobalVariable_checked globalInitializer_none declareGlobal_fresh)
  have lf: "LookupFunction (symbolTable ?m1) nm = []"
    using assms(2) by (simp add: LookupFunction_def)
  have lv: "LookupVariable (symbolTable ?m1) nm =
      Some \<lparr> symName = nm, symPos = p1, symType = T, symStorageClass = SC_EXTERN,
             symConstValue = None, symStoragePtr = Some nm, symFunction = None \<rparr>"
    using assms(3) by (simp add: LookupVariable_def find_None_append)
  have g0: "find (\<lambda>g. gvName g = nm) (globalList (module m)) = None"
    using assms(4) by (simp add: nameTaken_def getGlobalVariable_def)
  have f0: "getFunction (module m) nm = None"
    using assms(4) by (simp add: nameTaken_def)
  have "?second = declareGlobal fe ?m1 nm T isConst2 SC_NONE p2 lt
                    (Some (getNullValue fe lt)) None"
    using assms lf by (simp add: AddGlobalVariable_checked globalInitializer_none)
  also have "\<dots> = Inr ?m2"
    using assms(3,9) g0 f0
    by (simp add: declareGlobal_def lv getGlobalVariable_def find_None_append
        hasInitializer_def emitGlobal_def removeFromParent_def find_None_filter_neq
        nameTaken_def getFunction_def updateVariable_def LookupVariable_def
        find_None_map_id Let_def)
  finally show "?second = Inr ?m2" .
qed

lemma withGlobal_lookup:
  assumes "LookupVariable (symbolTable m) nm = None" "symName s = nm"
  shows "LookupVariable (symbolTable (withGlobal m gv s)) nm = Some s"
  using assms by (simp add: withGlobal_def LookupVariable_def find_None_append)

lemma withGlobal_functions:
  "LookupFunction (symbolTable (withGlobal m gv s)) nm = LookupFunction (symbolTable m) nm"
  by (simp add: withGlobal_def LookupFunction_def)

lemma withGlobal_counts:
  "errorCount (withGlobal m gv s) = errorCount m"
  "diagnostics (withGlobal m gv s) = diagnostics m"
  by (simp_all add: withGlobal_def)

text \<open>
  Claim C1, amended.  For a name that is new to the module and a type that passes the
  checks of a declaration: declaring the variable \<^verbatim>\<open>extern\<close> and then declaring it
  again with the same type and no storage qualifier succeeds, with no error and no
  warning, one symbol for the name and one global variable for it, now with an
  initializer; a later declaration with a different type is refused as a conflicting
  declaration.  In the other order, the definition first and the \<^verbatim>\<open>extern\<close>
  declaration of the same type second, the second declaration is refused as a
  conflicting declaration.
\<close>

theorem extern_then_definition:
  assumes "nm \<noteq> []" "LookupFunction (symbolTable m) nm = []"
    "LookupVariable (symbolTable m) nm = None" "\<not> nameTaken (module m) nm"
    "\<not> IsVoidType T" "SizeUnsizedArrays fe T None = Some T"
    "\<not> (isArrayType T \<and> TotalElementCount T = 0)" "LLVMType fe T = Some lt"
    "Equal fe T T"
  shows
   "(let declGV = \<lparr> gvName = nm, gvValueType = lt, gvIsConstant = isConst,
                          gvLinkage = ExternalLinkage, gvInitializer = None \<rparr>;
         defGV = \<lparr> gvName = nm, gvValueType = lt, gvIsConstant = isConst,
                          gvLinkage = ExternalLinkage,
                          gvInitializer = Some (getNullValue fe lt) \<rparr>;
         externSym = \<lparr> symName = nm, symPos = p1, symType = T, symStorageClass = SC_EXTERN,
                       symConstValue = None, symStoragePtr = Some nm, symFunction = None \<rparr>;
         plainSym = \<lparr> symName = nm, symPos = p1, symType = T, symStorageClass = SC_NONE,
                       symConstValue = None, symStoragePtr = Some nm, symFunction = None \<rparr>
     in AddGlobalVariable fe m nm (Some T) None isConst SC_EXTERN p1
          = Inr (withGlobal m declGV externSym)
      \<and> AddGlobalVariable fe (withGlobal m declGV externSym) nm (Some T) None isConst
            SC_NONE p2
          = Inr (withGlobal m defGV externSym)
      \<and> errorCount (withGlobal m defGV externSym) = errorCount m
      \<and> diagnostics (withGlobal m defGV externSym) = diagnostics m
      \<and> filter (\<lambda>s. symName s = nm)
            (stVariables (symbolTable (withGlobal m defGV externSym))) = [externSym]
      \<and> filter (\<lambda>g. gvName g = nm)
            (globalList (module (withGlobal m defGV externSym))) = [defGV]
      \<and> (\<not> Equal fe T T1' \<and> sc' \<noteq> SC_EXTERN_C \<and> \<not> IsVoidType T'
           \<and> SizeUnsizedArrays fe T' None = Some T1'
           \<and> \<not> (isArrayType T1' \<and> TotalElementCount T1' = 0)
           \<and> LLVMType fe T1' = Some lt' \<longrightarrow>
          AddGlobalVariable fe (withGlobal m defGV externSym) nm (Some T') None isConst'
            sc' p3
          = Inr (Error (withGlobal m defGV externSym) p3
                   (ConflictingDeclarationError nm p1)))
      \<and> AddGlobalVariable fe m nm (Some T) None isConst SC_NONE p1
          = Inr (withGlobal m defGV plainSym)
      \<and> AddGlobalVariable fe (withGlobal m defGV plainSym) nm (Some T) None isConst
            SC_EXTERN p2
          = Inr (Error (withGlobal m defGV plainSym) p2
                   (ConflictingDeclarationError nm p1)))"
proof -
  define declGV where "declGV = \<lparr> gvName = nm, gvValueType = lt,
     gvIsConstant = isConst, gvLinkage = ExternalLinkage, gvInitializer = (None :: 'b option) \<rparr>"
  define defGV where "defGV = \<lparr> gvName = nm, gvValueType = lt,
     gvIsConstant = isConst, gvLinkage = ExternalLinkage,
     gvInitializer = Some (getNullValue fe lt) \<rparr>"
  define externSym where "externSym = \<lparr> symName = nm, symPos = p1, symType = T,
     symStorageClass = SC_EXTERN, symConstValue = (None :: 'a option),
     symStoragePtr = Some nm, symFunction = None \<rparr>"
  define plainSym where "plainSym = \<lparr> symName = nm, symPos = p1, symType = T,
     symStorageClass = SC_NONE, symConstValue = (None :: 'a option),
     symStoragePtr = Some nm, symFunction = None \<rparr>"
  note defs = declGV_def defGV_def externSym_def plainSym_def
  have g0: "filter (\<lambda>g. gvName g = nm) (globalList (module m)) = []"
    using assms(4) by (simp add: nameTaken_def getGlobalVariable_def find_None_filter)
  have v0: "filter (\<lambda>s. symName s = nm) (stVariables (symbolTable m)) = []"
    using assms(3) by (simp add: LookupVariable_def find_None_filter)
  have s1: "AddGlobalVariable fe m nm (Some T) None isConst SC_EXTERN p1
          = Inr (withGlobal m declGV externSym)"
    unfolding defs withGlobal_def by (rule declare_extern_then_define(1) [OF assms])
  have s2: "AddGlobalVariable fe (withGlobal m declGV externSym) nm (Some T) None isConst
            SC_NONE p2 = Inr (withGlobal m defGV externSym)"
    unfolding defs withGlobal_def by (rule declare_extern_then_define(2) [OF assms])
  have s3: "filter (\<lambda>s. symName s = nm)
            (stVariables (symbolTable (withGlobal m defGV externSym))) = [externSym]"
    using v0 by (simp add: withGlobal_def externSym_def)
  have s4: "filter (\<lambda>g. gvName g = nm)
            (globalList (module (withGlobal m defGV externSym))) = [defGV]"
    using g0 by (simp add: withGlobal_def defGV_def)
  have s5: "AddGlobalVariable fe (withGlobal m defGV externSym) nm (Some T') None isConst'
            sc' p3
          = Inr (Error (withGlobal m defGV externSym) p3
                   (ConflictingDeclarationError nm p1))"
    if h: "\<not> Equal fe T T1' \<and> sc' \<noteq> SC_EXTERN_C \<and> \<not> IsVoidType T'
           \<and> SizeUnsizedArrays fe T' None = Some T1'
           \<and> \<not> (isArrayType T1' \<and> TotalElementCount T1' = 0)
           \<and> LLVMType fe T1' = Some lt'"
  proof -
    have lv: "LookupVariable (symbolTable (withGlobal m defGV externSym)) nm
              = Some externSym"
      using assms(3) by (intro withGlobal_lookup) (simp_all add: externSym_def)
    have "AddGlobalVariable fe (withGlobal m defGV externSym) nm (Some T') None isConst'
            sc' p3
        = declareGlobal fe (withGlobal m defGV externSym) nm T1' isConst' sc' p3 lt'
            (if sc' = SC_EXTERN \<or> sc' = SC_EXTERN_C then None else Some (getNullValue fe lt'))
            None"
      using h assms(1,2)
      by (subst AddGlobalVariable_checked [where ?T1.0 = T1' and lt = lt'])
         (simp_all add: withGlobal_functions globalInitializer_none)
    also have "\<dots> = Inr (Error (withGlobal m defGV externSym) p3
                   (ConflictingDeclarationError nm (symPos externSym)))"
      using h by (intro declareGlobal_conflict [OF lv]) (simp add: externSym_def)
    finally show ?thesis by (simp add: externSym_def)
  qed
  have s6: "AddGlobalVariable fe m nm (Some T) None isConst SC_NONE p1
          = Inr (withGlobal m defGV plainSym)"
    using assms unfolding defs withGlobal_def
    by (simp add: AddGlobalVariable_checked globalInitializer_none declareGlobal_fresh)
  have s7: "AddGlobalVariable fe (withGlobal m defGV plainSym) nm (Some T) None isConst
            SC_EXTERN p2
          = Inr (Error (withGlobal m defGV plainSym) p2
                   (ConflictingDeclarationError nm p1))"
  proof -
    have lv: "LookupVariable (symbolTable (withGlobal m defGV plainSym)) nm
              = Some plainSym"
      using assms(3) by (intro withGlobal_lookup) (simp_all add: plainSym_def)
    have "AddGlobalVariable fe (withGlobal m defGV plainSym) nm (Some T) None isConst
            SC_EXTERN p2
        = declareGlobal fe (withGlobal m defGV plainSym) nm T isConst SC_EXTERN p2 lt
            None None"
      using assms
      by (subst AddGlobalVariable_checked [where ?T1.0 = T and lt = lt])
         (simp_all add: withGlobal_functions globalInitializer_none)
    also have "\<dots> = Inr (Error (withGlobal m defGV plainSym) p2
                   (ConflictingDeclarationError nm (symPos plainSym)))"
      by (intro declareGlobal_conflict [OF lv]) (simp add: plainSym_def)
    finally show ?thesis by (simp add: plainSym_def)
  qed
  have "AddGlobalVariable fe m nm (Some T) None isConst SC_EXTERN p1
          = Inr (withGlobal m declGV externSym)
      \<and> AddGlobalVariable fe (withGlobal m declGV externSym) nm (Some T) None isConst
            SC_NONE p2
          = Inr (withGlobal m defGV externSym)
      \<and> errorCount (withGlobal m defGV externSym) = errorCount m
      \<and> diagnostics (withGlobal m defGV externSym) = diagnostics m
      \<and> filter (\<lambda>s. symName s = nm)
            (stVariables (symbolTable (withGlobal m defGV externSym))) = [externSym]
      \<and> filter (\<lambda>g. gvName g = nm)
            (globalList (module (withGlobal m defGV externSym))) = [defGV]
      \<and> (\<not> Equal fe T T1' \<and> sc' \<noteq> SC_EXTERN_C \<and> \<not> IsVoidType T'
           \<and> SizeUnsizedArrays fe T' None = Some T1'
           \<and> \<not> (isArrayType T1' \<and> TotalElementCount T1' = 0)
           \<and> LLVMType fe T1' = Some lt' \<longrightarrow>
          AddGlobalVariable fe (withGlobal m defGV externSym) nm (Some T') None isConst'
            sc' p3
          = Inr (Error (withGlobal m defGV externSym) p3
                   (ConflictingDeclarationError nm p1)))
      \<and> AddGlobalVariable fe m nm (Some T) None isConst SC_NONE p1
          = Inr (withGlobal m defGV plainSym)
      \<and> AddGlobalVariable fe (withGlobal m defGV plainSym) nm (Some T) None isConst
            SC_EXTERN p2
          = Inr (Error (withGlobal m defGV plainSym) p2
                   (ConflictingDeclarationError nm p1))"
    using s1 s2 s3 s4 s5 s6 s7 withGlobal_counts [of m defGV externSym]
    by (intro conjI impI)
  then show ?thesis
    unfolding defs Let_def .
qed

theorem extern_then_definition_witness:
  "''x'' \<noteq> []
   \<and> LookupFunction (symbolTable emptyModule) ''x'' = []
   \<and> LookupVariable (symbolTable emptyModule) ''x'' = None
   \<and> \<not> nameTaken (module emptyModule) ''x''
   \<and> \<not> IsVoidType uniformInt
   \<and> SizeUnsizedArrays sampleFrontend uniformInt None = Some uniformInt
   \<and> \<not> (isArrayType uniformInt \<and> TotalElementCount uniformInt = 0)
   \<and> LLVMType sampleFrontend uniformInt = Some (IntegerTy 32)
   \<and> Equal sampleFrontend uniformInt uniformInt
   \<and> AddGlobalVariable sampleFrontend
        (withGlobal emptyModule
           \<lparr> gvName = ''x'', gvValueType = IntegerTy 32, gvIsConstant = False,
             gvLinkage = ExternalLinkage, gvInitializer = None \<rparr>
           \<lparr> symName = ''x'', symPos = (''a.ispc'', 1), symType = uniformInt,
             symStorageClass = SC_EXTERN, symConstValue = None, symStoragePtr = Some ''x'',
             symFunction = None \<rparr>)
        ''x'' (Some uniformInt) None False SC_NONE (''a.ispc'', 2)
      = Inr (withGlobal emptyModule
           \<lparr> gvName = ''x'', gvValueType = IntegerTy 32, gvIsConstant = False,
             gvLinkage = ExternalLinkage,
             gvInitializer = Some (getNullValue sampleFrontend (IntegerTy 32)) \<rparr>
           \<lparr> symName = ''x'', symPos = (''a.ispc'', 1), symType = uniformInt,
             symStorageClass = SC_EXTERN, symConstValue = None, symStoragePtr = Some ''x'',
             symFunction = None \<rparr>)
   \<and> \<not> Equal sampleFrontend uniformInt uniformFloat
   \<and> AddGlobalVariable sampleFrontend
        (withGlobal emptyModule
           \<lparr> gvName = ''x'', gvValueType = IntegerTy 32, gvIsConstant = False,
             gvLinkage = ExternalLinkage,
             gvInitializer = Some (getNullValue sampleFrontend (IntegerTy 32)) \<rparr>
           \<lparr> symName = ''x'', symPos = (''a.ispc'', 1), symType = uniformInt,
             symStorageClass = SC_EXTERN, symConstValue = None, symStoragePtr = Some ''x'',
             symFunction = None \<rparr>)
        ''x'' (Some uniformFloat) None False SC_EXTERN (''a.ispc'', 3)
      = Inr (Error (withGlobal emptyModule
           \<lparr> gvName = ''x'', gvValueType = IntegerTy 32, gvIsConstant = False,
             gvLinkage = ExternalLinkage,
             gvInitializer = Some (getNullValue sampleFrontend (IntegerTy 32)) \<rparr>
           \<lparr> symName = ''x'', symPos = (''a.ispc'', 1), symType = uniformInt,
             symStorageClass = SC_EXTERN, symConstValue = None, symStoragePtr = Some ''x'',
             symFunction = None \<rparr>)
          (''a.ispc'', 3) (ConflictingDeclarationError ''x'' (''a.ispc'', 1)))"
proof -
  have h1: "''x'' \<noteq> []" by simp
  have h2: "LookupFunction (symbolTable emptyModule) ''x'' = []"
    by (simp add: emptyModule_def LookupFunction_def)
  have h3: "LookupVariable (symbolTable emptyModule) ''x'' = None"
    by (simp add: emptyModule_def LookupVariable_def)
  have h4: "\<not> nameTaken (module emptyModule) ''x''"
    by (simp add: emptyModule_def nameTaken_def getGlobalVariable_def getFunction_def)
  have h5: "\<not> IsVoidType uniformInt" by (simp add: uniformInt_def)
  have h6: "SizeUnsizedArrays sampleFrontend uniformInt None = Some uniformInt"
    by (simp add: sampleFrontend_def)
  have h7: "\<not> (isArrayType uniformInt \<and> TotalElementCount uniformInt = 0)"
    by (simp add: uniformInt_def)
  have h8: "LLVMType sampleFrontend uniformInt = Some (IntegerTy 32)"
    by (simp add: sampleFrontend_def)
  have h9: "Equal sampleFrontend uniformInt uniformInt" by (simp add: sampleFrontend_def)
  have k1: "\<not> Equal sampleFrontend uniformInt uniformFloat"
    by (simp add: sampleFrontend_def uniformInt_def uniformFloat_def)
  have k: "\<not> Equal sampleFrontend uniformInt uniformFloat \<and> SC_EXTERN \<noteq> SC_EXTERN_C
       \<and> \<not> IsVoidType uniformFloat
       \<and> SizeUnsizedArrays sampleFrontend uniformFloat None = Some uniformFloat
       \<and> \<not> (isArrayType uniformFloat \<and> TotalElementCount uniformFloat = 0)
       \<and> LLVMType sampleFrontend uniformFloat = Some (IntegerTy 32)"
    using k1 by (simp add: sampleFrontend_def uniformFloat_def)
  note t = extern_then_definition [OF h1 h2 h3 h4 h5 h6 h7 h8 h9,
      where ?T1'.0 = uniformFloat and T' = uniformFloat and sc' = SC_EXTERN
        and lt' = "IntegerTy 32" and isConst = False and isConst' = False
        and ?p1.0 = "(''a.ispc'', 1)" and ?p2.0 = "(''a.ispc'', 2)"
        and ?p3.0 = "(''a.ispc'', 3)", unfolded Let_def]
  note t2 = t [THEN conjunct2, THEN conjunct1]
  note t7 = mp [OF t [THEN conjunct2, THEN conjunct2, THEN conjunct2, THEN conjunct2,
                     THEN conjunct2, THEN conjunct2, THEN conjunct1] k]
  from h1 h2 h3 h4 h5 h6 h7 h8 h9 t2 k1 t7 show ?thesis by (intro conjI)
qed

lemma withGlobal_getGlobal:
  assumes "\<not> nameTaken (module m) nm" "gvName gv = nm"
  shows "getGlobalVariable (module (withGlobal m gv s)) nm = Some gv"
  using assms
  by (simp add: withGlobal_def nameTaken_def getGlobalVariable_def find_None_append)

text \<open>
  Claim C10.  Declaring a new variable \<^verbatim>\<open>extern\<close> with an initializer reports one
  error, which increments the error count, and still goes on: the symbol is added to
  the symbol table, and the global variable is created with external linkage and
  without an initializer.
\<close>

theorem extern_with_initializer:
  assumes "nm \<noteq> []" "LookupFunction (symbolTable m) nm = []"
    "LookupVariable (symbolTable m) nm = None" "\<not> nameTaken (module m) nm"
    "\<not> IsVoidType T" "SizeUnsizedArrays fe T (Some e) = Some T1"
    "\<not> (isArrayType T1 \<and> TotalElementCount T1 = 0)" "LLVMType fe T1 = Some lt"
  shows
   "(let reported = Error m pos (ExternInitializerError nm);
         declGV = \<lparr> gvName = nm, gvValueType = lt, gvIsConstant = isConst,
                    gvLinkage = ExternalLinkage, gvInitializer = None \<rparr>;
         externSym = \<lparr> symName = nm, symPos = pos, symType = T1,
                       symStorageClass = SC_EXTERN, symConstValue = None,
                       symStoragePtr = Some nm, symFunction = None \<rparr>
     in AddGlobalVariable fe m nm (Some T) (Some e) isConst SC_EXTERN pos
          = Inr (withGlobal reported declGV externSym)
      \<and> errorCount (withGlobal reported declGV externSym) = errorCount m + 1
      \<and> diagnostics (withGlobal reported declGV externSym)
          = diagnostics m @ [ErrorDiag pos (ExternInitializerError nm)]
      \<and> LookupVariable (symbolTable (withGlobal reported declGV externSym)) nm
          = Some externSym
      \<and> getGlobalVariable (module (withGlobal reported declGV externSym)) nm
          = Some declGV)"
proof -
  define reported where "reported = Error m pos (ExternInitializerError nm)"
  define declGV where "declGV = \<lparr> gvName = nm, gvValueType = lt, gvIsConstant = isConst,
     gvLinkage = ExternalLinkage, gvInitializer = (None :: 'b option) \<rparr>"
  define externSym where "externSym = \<lparr> symName = nm, symPos = pos, symType = T1,
     symStorageClass = SC_EXTERN, symConstValue = (None :: 'a option),
     symStoragePtr = Some nm, symFunction = None \<rparr>"
  note defs = reported_def declGV_def externSym_def
  have lv: "LookupVariable (symbolTable reported) nm = None"
    using assms(3) by (simp add: reported_def Error_keeps)
  have nt: "\<not> nameTaken (module reported) nm"
    using assms(4) by (simp add: reported_def Error_keeps)
  have "AddGlobalVariable fe m nm (Some T) (Some e) isConst SC_EXTERN pos =
     declareGlobal fe reported nm T1 isConst SC_EXTERN pos lt None None"
    using assms
    by (simp add: AddGlobalVariable_checked globalInitializer_extern_init reported_def)
  also have "\<dots> = Inr (withGlobal reported declGV externSym)"
    unfolding declGV_def externSym_def withGlobal_def
    using lv nt by (subst declareGlobal_fresh) simp_all
  finally have s1: "AddGlobalVariable fe m nm (Some T) (Some e) isConst SC_EXTERN pos
      = Inr (withGlobal reported declGV externSym)" .
  have s2: "errorCount (withGlobal reported declGV externSym) = errorCount m + 1"
    by (simp add: withGlobal_counts reported_def Error_keeps)
  have s3: "diagnostics (withGlobal reported declGV externSym)
          = diagnostics m @ [ErrorDiag pos (ExternInitializerError nm)]"
    by (simp add: withGlobal_counts reported_def Error_keeps)
  have s4: "LookupVariable (symbolTable (withGlobal reported declGV externSym)) nm
          = Some externSym"
    using lv by (intro withGlobal_lookup) (simp_all add: externSym_def)
  have s5: "getGlobalVariable (module (withGlobal reported declGV externSym)) nm
          = Some declGV"
    using nt by (intro withGlobal_getGlobal) (simp_all add: declGV_def)
  from s1 s2 s3 s4 s5 have
    "AddGlobalVariable fe m nm (Some T) (Some e) isConst SC_EXTERN pos
          = Inr (withGlobal reported declGV externSym)
      \<and> errorCount (withGlobal reported declGV externSym) = errorCount m + 1
      \<and> diagnostics (withGlobal reported declGV externSym)
          = diagnostics m @ [ErrorDiag pos (ExternInitializerError nm)]
      \<and> LookupVariable (symbolTable (withGlobal reported declGV externSym)) nm
          = Some externSym
      \<and> getGlobalVariable (module (withGlobal reported declGV externSym)) nm
          = Some declGV"
    by (intro conjI)
  then show ?thesis unfolding defs Let_def .
qed

theorem extern_with_initializer_witness:
  "''x'' \<noteq> []
   \<and> LookupFunction (symbolTable emptyModule) ''x'' = []
   \<and> LookupVariable (symbolTable emptyModule) ''x'' = None
   \<and> \<not> nameTaken (module emptyModule) ''x''
   \<and> \<not> IsVoidType uniformInt
   \<and> SizeUnsizedArrays sampleFrontend uniformInt (Some ''5'') = Some uniformInt
   \<and> \<not> (isArrayType uniformInt \<and> TotalElementCount uniformInt = 0)
   \<and> LLVMType sampleFrontend uniformInt = Some (IntegerTy 32)
   \<and> AddGlobalVariable sampleFrontend emptyModule ''x'' (Some uniformInt) (Some ''5'') False
        SC_EXTERN (''a.ispc'', 1)
      = Inr \<lparr> errorCount = 1,
              diagnostics = [ErrorDiag (''a.ispc'', 1) (ExternInitializerError ''x'')],
              symbolTable =
                \<lparr> stVariables =
                    [\<lparr> symName = ''x'', symPos = (''a.ispc'', 1), symType = uniformInt,
                       symStorageClass = SC_EXTERN, symConstValue = None,
                       symStoragePtr = Some ''x'', symFunction = None \<rparr>],
                  stFunctions = [] \<rparr>,
              module =
                \<lparr> globalList =
                    [\<lparr> gvName = ''x'', gvValueType = IntegerTy 32, gvIsConstant = False,
                       gvLinkage = ExternalLinkage, gvInitializer = None \<rparr>],
                  functionList = [] \<rparr> \<rparr>"
proof -
  have h1: "''x'' \<noteq> []" by simp
  have h2: "LookupFunction (symbolTable emptyModule) ''x'' = []"
    by (simp add: emptyModule_def LookupFunction_def)
  have h3: "LookupVariable (symbolTable emptyModule) ''x'' = None"
    by (simp add: emptyModule_def LookupVariable_def)
  have h4: "\<not> nameTaken (module emptyModule) ''x''"
    by (simp add: emptyModule_def nameTaken_def getGlobalVariable_def getFunction_def)
  have h5: "\<not> IsVoidType uniformInt" by (simp add: uniformInt_def)
  have h6: "SizeUnsizedArrays sampleFrontend uniformInt (Some ''5'') = Some uniformInt"
    by (simp add: sampleFrontend_def)
  have h7: "\<not> (isArrayType uniformInt \<and> TotalElementCount uniformInt = 0)"
    by (simp add: uniformInt_def)
  have h8: "LLVMType sampleFrontend uniformInt = Some (IntegerTy 32)"
    by (simp add: sampleFrontend_def)
  note t = extern_with_initializer [OF h1 h2 h3 h4 h5 h6 h7 h8,
      where isConst = False and pos = "(''a.ispc'', 1)", unfolded Let_def, THEN conjunct1]
  have t': "AddGlobalVariable sampleFrontend emptyModule ''x'' (Some uniformInt) (Some ''5'')
        False SC_EXTERN (''a.ispc'', 1)
      = Inr \<lparr> errorCount = 1,
              diagnostics = [ErrorDiag (''a.ispc'', 1) (ExternInitializerError ''x'')],
              symbolTable =
                \<lparr> stVariables =
                    [\<lparr> symName = ''x'', symPos = (''a.ispc'', 1), symType = uniformInt,
                       symStorageClass = SC_EXTERN, symConstValue = None,
                       symStoragePtr = Some ''x'', symFunction = None \<rparr>],
                  stFunctions = [] \<rparr>,
              module =
                \<lparr> globalList =
                    [\<lparr> gvName = ''x'', gvValueType = IntegerTy 32, gvIsConstant = False,
                       gvLinkage = ExternalLinkage, gvInitializer = None \<rparr>],
                  functionList = [] \<rparr> \<rparr>"
    unfolding t by (simp add: withGlobal_def Error_def emptyModule_def)
  from h1 h2 h3 h4 h5 h6 h7 h8 t' show ?thesis by (intro conjI)
qed

section \<open>Declarations of functions\<close>

lemma overloadLoop_same:
  assumes "isFunctionType (symType f)" "Equal fe (symType f) ft"
  shows "overloadLoop fe m ft pos (f # rest) = Inr (m, True)"
  using assms by simp

lemma overloadLoop_return_type:
  assumes "isFunctionType (symType f)" "\<not> Equal fe (symType f) ft"
    "GetNumParameters (symType f) = GetNumParameters ft"
    "list_all2 (Equal fe) (GetParameterTypes (symType f)) (GetParameterTypes ft)"
  shows "overloadLoop fe m ft pos (f # rest) =
     Inr (Error (if isExported ft \<or> isExported (symType f)
                 then Error m pos (ExportOverloadError (symPos f)) else m)
            pos (ReturnOverloadError (symPos f)), True)"
  using assms by (simp add: Let_def)



lemma fooModule_is_declared:
  "AddFunctionDeclaration sampleFrontend emptyModule ''foo'' intOfInt SC_NONE False False
     (''a.ispc'', 1) = Inr fooModule"
  by (simp add: AddFunctionDeclaration_def sampleFrontend_def emptyModule_def intOfInt_def
      uniformInt_def fooModule_def fooSymbol_def LookupVariable_def LookupFunction_def
      createFunction_def nameTaken_def getGlobalVariable_def getFunction_def AddFunction_def
      GetParameterTypes_def Let_def)

section \<open>Reconciling the globals of the targets\<close>

lemma find_None_iff_names:
  "find (\<lambda>g. gvName g = nm) xs = None \<longleftrightarrow> nm \<notin> gvName ` set xs"
  by (induction xs) auto

lemma nameTaken_append:
  "nameTaken (md\<lparr>globalList := globalList md @ [g]\<rparr>) nm
   \<longleftrightarrow> nameTaken md nm \<or> gvName g = nm"
  by (auto simp: nameTaken_def getGlobalVariable_def getFunction_def find_None_iff_names)

lemma definition_copy:
  "gvLinkage gv = ExternalLinkage \<Longrightarrow>
   \<lparr> gvName = gvName gv, gvValueType = gvValueType gv, gvIsConstant = gvIsConstant gv,
     gvLinkage = ExternalLinkage, gvInitializer = gvInitializer gv \<rparr> = gv"
  by simp

lemma globalsLoop_extract:
  assumes "\<forall>gv \<in> set gl. isGlobalDefinition gv \<longrightarrow>
             LookupVariable (symbolTable m) (gvName gv) \<noteq> None"
    and "distinct (map gvName gl)"
    and "\<forall>gv \<in> set gl. isGlobalDefinition gv \<longrightarrow> \<not> nameTaken mdst (gvName gv)"
  shows "globalsLoop fe m gl mdst False =
     Inr (m, map clearInitializer gl,
          mdst\<lparr>globalList := globalList mdst @ filter isGlobalDefinition gl\<rparr>)"
  using assms
proof (induction gl arbitrary: mdst)
  case Nil
  then show ?case by simp
next
  case (Cons gv rest)
  show ?case
  proof (cases "isGlobalDefinition gv")
    case False
    then have "globalsLoop fe m (gv # rest) mdst False
        = consGlobal gv (globalsLoop fe m rest mdst False)"
      by (auto simp: isGlobalDefinition_def)
    moreover have "globalsLoop fe m rest mdst False =
       Inr (m, map clearInitializer rest,
            mdst\<lparr>globalList := globalList mdst @ filter isGlobalDefinition rest\<rparr>)"
      using Cons.prems by (intro Cons.IH) auto
    ultimately show ?thesis using False
      by (simp add: consGlobal_def clearInitializer_def)
  next
    case True
    then obtain symb where s: "LookupVariable (symbolTable m) (gvName gv) = Some symb"
      using Cons.prems(1) by auto
    have nt: "\<not> nameTaken mdst (gvName gv)" using True Cons.prems(3) by simp
    let ?mdst1 = "mdst\<lparr>globalList := globalList mdst @ [gv]\<rparr>"
    have ext: "gvLinkage gv = ExternalLinkage" using True by (simp add: isGlobalDefinition_def)
    have step: "globalsLoop fe m (gv # rest) mdst False
        = consGlobal (gv\<lparr>gvInitializer := None\<rparr>) (globalsLoop fe m rest ?mdst1 False)"
      using True s nt ext
      by (simp add: isGlobalDefinition_def Let_def definition_copy [OF ext])
    have fresh: "\<forall>g \<in> set rest. isGlobalDefinition g \<longrightarrow> \<not> nameTaken ?mdst1 (gvName g)"
      using Cons.prems(2,3) by (auto simp: nameTaken_append)
    have "globalsLoop fe m rest ?mdst1 False =
       Inr (m, map clearInitializer rest,
            ?mdst1\<lparr>globalList := globalList ?mdst1 @ filter isGlobalDefinition rest\<rparr>)"
      using Cons.prems fresh by (intro Cons.IH) auto
    then show ?thesis using True step
      by (simp add: consGlobal_def clearInitializer_def)
  qed
qed

lemma globalsLoop_check:
  assumes "globalsLoop fe m gl mdst True = Inr (m1, gl1, mdst1)"
  shows "mdst1 = mdst \<and> gl1 = map clearInitializer gl
     \<and> errorCount m1 = errorCount m \<and> symbolTable m1 = symbolTable m
     \<and> module m1 = module m
     \<and> (\<exists>ws. diagnostics m1 = diagnostics m @ ws \<and> list_all isWarning ws)"
  using assms
proof (induction gl arbitrary: m m1 gl1 mdst1)
  case Nil
  then show ?case by simp
next
  case (Cons gv rest)
  show ?case
  proof (cases "isGlobalDefinition gv")
    case False
    with Cons.prems obtain gl2 where
      r: "globalsLoop fe m rest mdst True = Inr (m1, gl2, mdst1)" and g: "gl1 = gv # gl2"
      by (auto simp: isGlobalDefinition_def consGlobal_def split: sum.splits)
    from Cons.IH [OF r] g False show ?thesis by (simp add: clearInitializer_def)
  next
    case True
    with Cons.prems obtain symb exist gl2 where
      s: "LookupVariable (symbolTable m) (gvName gv) = Some symb"
      and e: "moduleGetGlobalVariable mdst (gvName gv) False = Some exist"
      and r: "globalsLoop fe
                (if \<not> lCompatibleTypes (getType exist) (getType (gv\<lparr>gvInitializer := None\<rparr>))
                 then Warning m (symPos symb) (GlobalLayoutMismatch (gvName gv)) else m)
                rest mdst True = Inr (m1, gl2, mdst1)"
      and g: "gl1 = gv\<lparr>gvInitializer := None\<rparr> # gl2"
      by (auto simp: isGlobalDefinition_def consGlobal_def Let_def
          split: sum.splits option.splits cong: if_cong)
    from Cons.IH [OF r] g True show ?thesis
      by (auto simp: clearInitializer_def Warning_def)
  qed
qed

lemma globalsLoop_check_returns:
  "(\<exists>r. globalsLoop fe m gl mdst True = Inr r) \<longleftrightarrow>
   (\<forall>gv \<in> set gl. isGlobalDefinition gv \<longrightarrow>
      LookupVariable (symbolTable m) (gvName gv) \<noteq> None
      \<and> moduleGetGlobalVariable mdst (gvName gv) False \<noteq> None)"
proof (induction gl arbitrary: m)
  case Nil
  then show ?case by simp
next
  case (Cons gv rest)
  have st: "symbolTable (Warning m p k) = symbolTable m" for p k
    by (simp add: Warning_def)
  show ?case
  proof (cases "isGlobalDefinition gv")
    case False
    then show ?thesis using Cons.IH [of m]
      by (auto simp: isGlobalDefinition_def consGlobal_def split: sum.splits)
  next
    case True
    show ?thesis
    proof (cases "LookupVariable (symbolTable m) (gvName gv)")
      case None
      then show ?thesis using True by (auto simp: isGlobalDefinition_def)
    next
      case (Some symb)
      show ?thesis
      proof (cases "moduleGetGlobalVariable mdst (gvName gv) False")
        case None
        then show ?thesis using True Some by (auto simp: isGlobalDefinition_def)
      next
        case (Some exist)
        let ?m1 = "if \<not> lCompatibleTypes (getType exist) (getType (gv\<lparr>gvInitializer := None\<rparr>))
                 then Warning m (symPos symb) (GlobalLayoutMismatch (gvName gv)) else m"
        have "symbolTable ?m1 = symbolTable m" by (simp add: st)
        then show ?thesis
          using True \<open>LookupVariable (symbolTable m) (gvName gv) = Some symb\<close> Some
            Cons.IH [of ?m1]
          by (auto simp: isGlobalDefinition_def consGlobal_def Let_def split: sum.splits
              cong: if_cong)
      qed
    qed
  qed
qed

lemma filter_same_name:
  "distinct (map f xs) \<Longrightarrow> x \<in> set xs \<Longrightarrow> filter (\<lambda>y. f y = f x) xs = [x]"
proof (induction xs)
  case Nil
  then show ?case by simp
next
  case (Cons a xs)
  show ?case
  proof (cases "a = x")
    case True
    have "f x \<notin> f ` set xs" using Cons.prems(1) True by simp
    then have "filter (\<lambda>y. f y = f x) xs = []"
      by (auto simp: filter_empty_conv image_iff)
    then show ?thesis using True by simp
  next
    case False
    then have "x \<in> set xs" using Cons.prems by simp
    moreover have "f a \<noteq> f x" using Cons.prems(1) \<open>x \<in> set xs\<close> by auto
    ultimately show ?thesis using Cons by simp
  qed
qed

lemma find_same_name:
  "distinct (map f xs) \<Longrightarrow> x \<in> set xs \<Longrightarrow> find (\<lambda>y. f y = f x) xs = Some x"
proof (induction xs)
  case Nil
  then show ?case by simp
next
  case (Cons a xs)
  then show ?case by (cases "a = x") auto
qed

lemma distinct_names_filter:
  "distinct (map f xs) \<Longrightarrow> distinct (map f (filter P xs))"
  by (induction xs) auto

lemma globalsLoop_check_warns:
  assumes "globalsLoop fe m gl mdst True = Inr (m1, gl1, mdst1)"
    and "gv \<in> set gl" "isGlobalDefinition gv"
    and "LookupVariable (symbolTable m) (gvName gv) = Some symb"
    and "moduleGetGlobalVariable mdst (gvName gv) False = Some exist"
    and "\<not> lCompatibleTypes (getType exist) (getType gv)"
  shows "WarningDiag (symPos symb) (GlobalLayoutMismatch (gvName gv)) \<in> set (diagnostics m1)"
  using assms
proof (induction gl arbitrary: m m1 gl1)
  case Nil
  then show ?case by simp
next
  case (Cons g rest)
  have gt: "getType (x\<lparr>gvInitializer := None\<rparr>) = getType x" for x :: "'b GlobalVariable"
    by (simp add: getType_def)
  show ?case
  proof (cases "isGlobalDefinition g")
    case False
    with Cons.prems(1) obtain gl2 where
      r: "globalsLoop fe m rest mdst True = Inr (m1, gl2, mdst1)"
      by (auto simp: isGlobalDefinition_def consGlobal_def split: sum.splits)
    from False Cons.prems(2,3) have "gv \<in> set rest" by auto
    from Cons.IH [OF r this Cons.prems(3,4,5,6)] show ?thesis .
  next
    case True
    with Cons.prems(1) obtain s e gl2 where
      s: "LookupVariable (symbolTable m) (gvName g) = Some s"
      and e: "moduleGetGlobalVariable mdst (gvName g) False = Some e"
      and r: "globalsLoop fe
                (if \<not> lCompatibleTypes (getType e) (getType g)
                 then Warning m (symPos s) (GlobalLayoutMismatch (gvName g)) else m)
                rest mdst True = Inr (m1, gl2, mdst1)"
      by (auto simp: isGlobalDefinition_def consGlobal_def Let_def gt
          split: sum.splits option.splits cong: if_cong)
    let ?m1 = "if \<not> lCompatibleTypes (getType e) (getType g)
                 then Warning m (symPos s) (GlobalLayoutMismatch (gvName g)) else m"
    have st: "symbolTable ?m1 = symbolTable m" by (simp add: Warning_def)
    from globalsLoop_check [OF r] obtain ws where
      ws: "diagnostics m1 = diagnostics ?m1 @ ws" by blast
    show ?thesis
    proof (cases "g = gv")
      case True
      then have "diagnostics ?m1 = diagnostics m @
          [WarningDiag (symPos symb) (GlobalLayoutMismatch (gvName gv))]"
        using s e Cons.prems(4,5,6) by (simp add: Warning_def)
      then show ?thesis using ws by simp
    next
      case False
      then have "gv \<in> set rest" using Cons.prems(2) by simp
      moreover have "LookupVariable (symbolTable ?m1) (gvName gv) = Some symb"
        using Cons.prems(4) st by simp
      ultimately show ?thesis
        using Cons.IH [OF r _ Cons.prems(3) _ Cons.prems(5,6)] by blast
    qed
  qed
qed

text \<open>
  Claim C4.  Let the global variables of the first target's module have distinct
  names, let each of its definitions (external linkage and an initializer) have a
  symbol, and let none of their names be taken in the dispatch module.  Then the
  extraction returns, the dispatch module receives the definitions in their order and
  holds exactly one global variable under the name of each, with its initializer, and
  the first target's own copy of each has its initializer cleared, so that the module
  keeps no definition.  For a later target the check returns exactly when every
  definition has a symbol and a global variable of its name is found in the dispatch
  module; it then leaves the dispatch module as it was, clears the initializers of
  the target's own definitions, and reports warnings only: the error count is
  unchanged, and a global whose type is not compatible with the one in the dispatch
  module is warned about.
\<close>

theorem globals_reconciled:
  assumes "\<forall>gv \<in> set (globalList msrc). isGlobalDefinition gv \<longrightarrow>
             LookupVariable (symbolTable m) (gvName gv) \<noteq> None"
    and "distinct (map gvName (globalList msrc))"
    and "\<forall>gv \<in> set (globalList msrc). isGlobalDefinition gv \<longrightarrow>
             \<not> nameTaken mdst (gvName gv)"
  shows
   "(let mdst1 = mdst\<lparr>globalList := globalList mdst
                      @ filter isGlobalDefinition (globalList msrc)\<rparr>
     in lExtractOrCheckGlobals fe m msrc mdst False
          = Inr (m, msrc\<lparr>globalList := map clearInitializer (globalList msrc)\<rparr>, mdst1)
      \<and> (\<forall>gv \<in> set (globalList msrc). isGlobalDefinition gv \<longrightarrow>
            filter (\<lambda>g. gvName g = gvName gv) (globalList mdst1) = [gv]
            \<and> moduleGetGlobalVariable mdst1 (gvName gv) False = Some gv
            \<and> gvName (clearInitializer gv) = gvName gv
            \<and> gvInitializer (clearInitializer gv) = None)
      \<and> (\<forall>g \<in> set (map clearInitializer (globalList msrc)). \<not> isGlobalDefinition g))
    \<and> (lExtractOrCheckGlobals fe m2 msrc2 mdst2 True = Inr (m3, msrc3, mdst3) \<longrightarrow>
          mdst3 = mdst2
          \<and> globalList msrc3 = map clearInitializer (globalList msrc2)
          \<and> errorCount m3 = errorCount m2
          \<and> (\<exists>ws. diagnostics m3 = diagnostics m2 @ ws \<and> list_all isWarning ws)
          \<and> (\<forall>gv \<in> set (globalList msrc2). \<forall>symb exist.
                isGlobalDefinition gv
                \<and> LookupVariable (symbolTable m2) (gvName gv) = Some symb
                \<and> moduleGetGlobalVariable mdst2 (gvName gv) False = Some exist
                \<and> \<not> lCompatibleTypes (getType exist) (getType gv) \<longrightarrow>
                WarningDiag (symPos symb) (GlobalLayoutMismatch (gvName gv))
                  \<in> set (diagnostics m3)))
    \<and> ((\<exists>r. lExtractOrCheckGlobals fe m2 msrc2 mdst2 True = Inr r) \<longleftrightarrow>
          (\<forall>gv \<in> set (globalList msrc2). isGlobalDefinition gv \<longrightarrow>
             LookupVariable (symbolTable m2) (gvName gv) \<noteq> None
             \<and> moduleGetGlobalVariable mdst2 (gvName gv) False \<noteq> None))"
proof -
  let ?defs = "filter isGlobalDefinition (globalList msrc)"
  define mdst1 where "mdst1 = mdst\<lparr>globalList := globalList mdst @ ?defs\<rparr>"
  have a: "lExtractOrCheckGlobals fe m msrc mdst False
          = Inr (m, msrc\<lparr>globalList := map clearInitializer (globalList msrc)\<rparr>, mdst1)"
    unfolding lExtractOrCheckGlobals_def mdst1_def
    by (simp add: globalsLoop_extract [OF assms])
  have b: "filter (\<lambda>g. gvName g = gvName gv) (globalList mdst1) = [gv]
            \<and> moduleGetGlobalVariable mdst1 (gvName gv) False = Some gv
            \<and> gvName (clearInitializer gv) = gvName gv
            \<and> gvInitializer (clearInitializer gv) = None"
    if gv: "gv \<in> set (globalList msrc)" and d: "isGlobalDefinition gv" for gv
  proof -
    have n: "find (\<lambda>g. gvName g = gvName gv) (globalList mdst) = None"
      using assms(3) gv d by (simp add: nameTaken_def getGlobalVariable_def)
    have in_defs: "gv \<in> set ?defs" using gv d by simp
    have dd: "distinct (map gvName ?defs)" using assms(2) by (rule distinct_names_filter)
    have "filter (\<lambda>g. gvName g = gvName gv) (globalList mdst1) = [gv]"
      using n filter_same_name [OF dd in_defs]
      by (simp add: mdst1_def find_None_filter)
    moreover have "moduleGetGlobalVariable mdst1 (gvName gv) False = Some gv"
      using n find_same_name [OF dd in_defs] d
      by (simp add: mdst1_def moduleGetGlobalVariable_def find_None_append
          isGlobalDefinition_def)
    moreover have "gvName (clearInitializer gv) = gvName gv
        \<and> gvInitializer (clearInitializer gv) = None"
      using d by (simp add: clearInitializer_def)
    ultimately show ?thesis by simp
  qed
  have c: "\<forall>g \<in> set (map clearInitializer (globalList msrc)). \<not> isGlobalDefinition g"
    by (auto simp: clearInitializer_def isGlobalDefinition_def hasInitializer_def)
  have first: "lExtractOrCheckGlobals fe m msrc mdst False
          = Inr (m, msrc\<lparr>globalList := map clearInitializer (globalList msrc)\<rparr>, mdst1)
      \<and> (\<forall>gv \<in> set (globalList msrc). isGlobalDefinition gv \<longrightarrow>
            filter (\<lambda>g. gvName g = gvName gv) (globalList mdst1) = [gv]
            \<and> moduleGetGlobalVariable mdst1 (gvName gv) False = Some gv
            \<and> gvName (clearInitializer gv) = gvName gv
            \<and> gvInitializer (clearInitializer gv) = None)
      \<and> (\<forall>g \<in> set (map clearInitializer (globalList msrc)). \<not> isGlobalDefinition g)"
    using a b c by blast
  have second: "lExtractOrCheckGlobals fe m2 msrc2 mdst2 True = Inr (m3, msrc3, mdst3) \<longrightarrow>
          mdst3 = mdst2
          \<and> globalList msrc3 = map clearInitializer (globalList msrc2)
          \<and> errorCount m3 = errorCount m2
          \<and> (\<exists>ws. diagnostics m3 = diagnostics m2 @ ws \<and> list_all isWarning ws)
          \<and> (\<forall>gv \<in> set (globalList msrc2). \<forall>symb exist.
                isGlobalDefinition gv
                \<and> LookupVariable (symbolTable m2) (gvName gv) = Some symb
                \<and> moduleGetGlobalVariable mdst2 (gvName gv) False = Some exist
                \<and> \<not> lCompatibleTypes (getType exist) (getType gv) \<longrightarrow>
                WarningDiag (symPos symb) (GlobalLayoutMismatch (gvName gv))
                  \<in> set (diagnostics m3))"
  proof (intro impI)
    assume r: "lExtractOrCheckGlobals fe m2 msrc2 mdst2 True = Inr (m3, msrc3, mdst3)"
    then obtain gl3 where
      g: "globalsLoop fe m2 (globalList msrc2) mdst2 True = Inr (m3, gl3, mdst3)"
      and ms: "msrc3 = msrc2\<lparr>globalList := gl3\<rparr>"
      by (auto simp: lExtractOrCheckGlobals_def split: sum.splits)
    from globalsLoop_check [OF g] ms globalsLoop_check_warns [OF g]
    show "mdst3 = mdst2
          \<and> globalList msrc3 = map clearInitializer (globalList msrc2)
          \<and> errorCount m3 = errorCount m2
          \<and> (\<exists>ws. diagnostics m3 = diagnostics m2 @ ws \<and> list_all isWarning ws)
          \<and> (\<forall>gv \<in> set (globalList msrc2). \<forall>symb exist.
                isGlobalDefinition gv
                \<and> LookupVariable (symbolTable m2) (gvName gv) = Some symb
                \<and> moduleGetGlobalVariable mdst2 (gvName gv) False = Some exist
                \<and> \<not> lCompatibleTypes (getType exist) (getType gv) \<longrightarrow>
                WarningDiag (symPos symb) (GlobalLayoutMismatch (gvName gv))
                  \<in> set (diagnostics m3))"
      by auto
  qed
  have third: "(\<exists>r. lExtractOrCheckGlobals fe m2 msrc2 mdst2 True = Inr r) \<longleftrightarrow>
          (\<forall>gv \<in> set (globalList msrc2). isGlobalDefinition gv \<longrightarrow>
             LookupVariable (symbolTable m2) (gvName gv) \<noteq> None
             \<and> moduleGetGlobalVariable mdst2 (gvName gv) False \<noteq> None)"
  proof -
    have "(\<exists>r. lExtractOrCheckGlobals fe m2 msrc2 mdst2 True = Inr r)
        \<longleftrightarrow> (\<exists>r. globalsLoop fe m2 (globalList msrc2) mdst2 True = Inr r)"
      by (auto simp: lExtractOrCheckGlobals_def split: sum.splits)
    then show ?thesis by (simp only: globalsLoop_check_returns)
  qed
  show ?thesis
    unfolding Let_def
    by (rule conjI [OF first [unfolded mdst1_def] conjI [OF second third]])
qed

lemmas reconcile_samples = globalA_def globalA8_def globalB_def globalC_def symbolOf_def
  targetModule_def dispatchSupport_def uniformInt_def

theorem globals_reconciled_witness:
  "lExtractOrCheckGlobals sampleFrontend (targetModule globalA)
      (module (targetModule globalA)) dispatchSupport False
     = Inr (targetModule globalA,
            \<lparr> globalList = [globalA\<lparr>gvInitializer := None\<rparr>, globalB, globalC],
              functionList = [] \<rparr>,
            dispatchSupport\<lparr>globalList := globalList dispatchSupport @ [globalA]\<rparr>)
   \<and> isGlobalDefinition globalA
   \<and> filter (\<lambda>g. gvName g = gvName globalA)
        (globalList (dispatchSupport\<lparr>globalList := globalList dispatchSupport @ [globalA]\<rparr>))
      = [globalA]
   \<and> lExtractOrCheckGlobals sampleFrontend (targetModule globalA8)
        (module (targetModule globalA8))
        (dispatchSupport\<lparr>globalList := globalList dispatchSupport @ [globalA]\<rparr>) True
     = Inr ((targetModule globalA8)
              \<lparr>diagnostics := [WarningDiag (''a.ispc'', 1) (GlobalLayoutMismatch ''a'')]\<rparr>,
            \<lparr> globalList = [globalA8\<lparr>gvInitializer := None\<rparr>, globalB, globalC],
              functionList = [] \<rparr>,
            dispatchSupport\<lparr>globalList := globalList dispatchSupport @ [globalA]\<rparr>)
   \<and> errorCount ((targetModule globalA8)
              \<lparr>diagnostics := [WarningDiag (''a.ispc'', 1) (GlobalLayoutMismatch ''a'')]\<rparr>)
      = errorCount (targetModule globalA8)
   \<and> WarningDiag (''a.ispc'', 1) (GlobalLayoutMismatch ''a'')
      \<in> set (diagnostics ((targetModule globalA8)
              \<lparr>diagnostics := [WarningDiag (''a.ispc'', 1) (GlobalLayoutMismatch ''a'')]\<rparr>))"
proof -
  let ?m = "targetModule globalA"
  let ?m2 = "targetModule globalA8"
  let ?d1 = "dispatchSupport\<lparr>globalList := globalList dispatchSupport @ [globalA]\<rparr>"
  let ?m3 = "?m2\<lparr>diagnostics := [WarningDiag (''a.ispc'', 1) (GlobalLayoutMismatch ''a'')]\<rparr>"
  let ?s3 = "\<lparr> globalList = [globalA8\<lparr>gvInitializer := None\<rparr>, globalB, globalC],
              functionList = [] \<rparr> :: int llvmModule"
  have gl: "globalList (module ?m) = [globalA, globalB, globalC]"
    by (simp add: targetModule_def)
  have dA: "isGlobalDefinition globalA"
    and dB: "\<not> isGlobalDefinition globalB" and dC: "\<not> isGlobalDefinition globalC"
    by (simp_all add: isGlobalDefinition_def hasInitializer_def reconcile_samples)
  have h1: "\<forall>gv \<in> set (globalList (module ?m)). isGlobalDefinition gv \<longrightarrow>
             LookupVariable (symbolTable ?m) (gvName gv) \<noteq> None"
    unfolding gl using dB dC by (simp add: LookupVariable_def reconcile_samples)
  have h2: "distinct (map gvName (globalList (module ?m)))"
    unfolding gl by (simp add: reconcile_samples)
  have h3: "\<forall>gv \<in> set (globalList (module ?m)). isGlobalDefinition gv \<longrightarrow>
             \<not> nameTaken dispatchSupport (gvName gv)"
    unfolding gl using dB dC
    by (simp add: nameTaken_def getGlobalVariable_def getFunction_def reconcile_samples)
  have run2: "lExtractOrCheckGlobals sampleFrontend ?m2 (module ?m2) ?d1 True
      = Inr (?m3, ?s3, ?d1)"
    by (simp add: lExtractOrCheckGlobals_def reconcile_samples LookupVariable_def
        moduleGetGlobalVariable_def hasInitializer_def getType_def Warning_def consGlobal_def
        Let_def)
  note t = globals_reconciled [OF h1 h2 h3, where fe = sampleFrontend and ?m2.0 = ?m2
      and ?msrc2.0 = "module ?m2" and ?mdst2.0 = ?d1 and ?m3.0 = ?m3 and ?msrc3.0 = ?s3
      and ?mdst3.0 = ?d1, unfolded Let_def]
  have defs: "filter isGlobalDefinition (globalList (module ?m)) = [globalA]"
    unfolding gl using dA dB dC by simp
  have cl: "map clearInitializer (globalList (module ?m))
      = [globalA\<lparr>gvInitializer := None\<rparr>, globalB, globalC]"
    unfolding gl using dA dB dC by (simp add: clearInitializer_def)
  note t1 = t [THEN conjunct1, unfolded defs cl]
  have a: "lExtractOrCheckGlobals sampleFrontend ?m (module ?m) dispatchSupport False
     = Inr (?m, \<lparr> globalList = [globalA\<lparr>gvInitializer := None\<rparr>, globalB, globalC],
              functionList = [] \<rparr>, ?d1)"
    using t1 [THEN conjunct1] by (simp add: targetModule_def)
  have inA: "globalA \<in> set (globalList (module ?m))" unfolding gl by simp
  note b0 = mp [OF bspec [OF t1 [THEN conjunct2, THEN conjunct1] inA] dA]
  note b = b0 [THEN conjunct1]
  note t2 = mp [OF t [THEN conjunct2, THEN conjunct1] run2]
  note e = t2 [THEN conjunct2, THEN conjunct2, THEN conjunct1]
  have w: "WarningDiag (''a.ispc'', 1) (GlobalLayoutMismatch ''a'') \<in> set (diagnostics ?m3)"
    by simp
  from a dA b run2 e w show ?thesis by (intro conjI)
qed
section \<open>The exit status of the driver\<close>


lemma statusReflectsErrors_final:
  "statusReflectsErrors \<lparr> exitStatus = (if n > 0 then 1 else 0), accumulatedErrors = n \<rparr>"
  by (simp add: statusReflectsErrors_def)















end
